theory Spec2Isabelle
  imports Complex_Main
begin

section \<open>The syntax tree read by the translator\<close>

text \<open>
  The translator of \<^verbatim>\<open>frontend/python.py\<close> walks a tree of Python's \<^verbatim>\<open>ast\<close> module.
  The node kinds below are the ones for which \<^verbatim>\<open>Translator\<close> defines a \<^verbatim>\<open>visit_\<close>
  method (literals are \<^verbatim>\<open>ast.Constant\<close> nodes, as the parser has produced them since
  Python 3.8), together with four kinds for which it defines none: the import
  statements \<^verbatim>\<open>ast.Import\<close> and \<^verbatim>\<open>ast.ImportFrom\<close>, which \<^verbatim>\<open>visit_Module\<close> meets at the
  top of a module, and the two remaining kinds that carry an operator token, the
  boolean operation \<^verbatim>\<open>ast.BoolOp\<close> and the augmented assignment \<^verbatim>\<open>ast.AugAssign\<close>. A
  node without a visitor is handled by \<^verbatim>\<open>ast.NodeTransformer.generic_visit\<close> of the
  standard library, which visits the children, stores what the visits return and
  returns the node itself. The other node kinds without a visitor are not part of
  this development. A constructor \<open>ast_X\<close> stands for the class \<^verbatim>\<open>ast.X\<close>.
\<close>

datatype operator =
    ast_Add | ast_Sub | ast_Mult | ast_MatMult | ast_Div | ast_Mod | ast_Pow
  | ast_LShift | ast_RShift | ast_BitOr | ast_BitXor | ast_BitAnd | ast_FloorDiv

datatype unaryop = ast_Invert | ast_Not | ast_UAdd | ast_USub

datatype boolop = ast_And | ast_Or

datatype cmpop =
    ast_Eq | ast_NotEq | ast_Lt | ast_LtE | ast_Gt | ast_GtE
  | ast_Is | ast_IsNot | ast_In | ast_NotIn

text \<open>
  The value held by an \<^verbatim>\<open>ast.Constant\<close>: \<open>PyOther\<close> stands for the literals that are
  neither \<^verbatim>\<open>bool\<close>, \<^verbatim>\<open>int\<close>, \<^verbatim>\<open>None\<close>, \<^verbatim>\<open>str\<close> nor another number (bytes, the
  ellipsis), \<open>PyNumber\<close> for a float or a complex number, whose value is not needed.
\<close>

datatype py_value = PyBool bool | PyInt int | PyNone | PyStr string | PyNumber | PyOther

text \<open>The keywords of an \<^verbatim>\<open>ast.Call\<close> are never read by the translator and are left out.\<close>

datatype expr =
    ast_Name string
  | ast_Attribute expr string
  | ast_BinOp expr operator expr
  | ast_UnaryOp unaryop expr
  | ast_Compare expr "cmpop list" "expr list"
  | ast_BoolOp boolop "expr list"
  | ast_Call expr "expr list"
  | ast_Constant py_value
  | ast_Index expr
  | ast_Starred expr
  | ast_Subscript expr expr

section \<open>The intermediate representation\<close>

text \<open>
  The module \<^verbatim>\<open>ir\<close> is imported by the translator and is not among the sources; its
  classes are used only as constructors (and \<^verbatim>\<open>ir.Field\<close> through its attributes
  \<^verbatim>\<open>target\<close> and \<^verbatim>\<open>name\<close>), so each class \<^verbatim>\<open>ir.X\<close> is a constructor \<open>ir_X\<close>.
  The tags of the operators are the functions of Python's \<^verbatim>\<open>operator\<close> module.
  A variable's type is the object that \<^verbatim>\<open>eval\<close> returns for the annotation; it is the
  type parameter \<open>'t\<close>.
\<close>

datatype op_tag =
    operator_add | operator_sub | operator_mul | operator_floordiv
  | operator_eq | operator_lt | operator_gt | operator_le | operator_ge | operator_ne
  | operator_not

datatype lit_type = type_bool | type_int | type_None

datatype branch_type = Branch_Break | Branch_Continue

datatype 't var = ir_Var (var_name: string) (var_type: 't)

datatype import_alias = ast_alias (alias_name: string) (alias_asname: "string option")

text \<open>
  Python is dynamically typed: a visitor returns an \<^verbatim>\<open>ir\<close> object, a plain \<^verbatim>\<open>str\<close>
  (\<open>py_str\<close>, what \<^verbatim>\<open>visit_Name\<close> returns), a registered variable (\<open>ir_ref\<close>, the
  \<^verbatim>\<open>ir.Var\<close> object of the symbol table) or, for a node without a visitor, the syntax
  node itself with what the visits of its children returned in their place
  (\<open>raw_Import\<close>, \<open>raw_ImportFrom\<close>, \<open>raw_BoolOp\<close>, \<open>raw_AugAssign\<close>). \<^verbatim>\<open>ir.ListAccess\<close>
  is always built with \<^verbatim>\<open>None\<close> as its third argument, which is left out.
\<close>

datatype 't ir =
    py_str string
  | ir_ref "'t var"
  | raw_Import "import_alias list"
  | raw_ImportFrom "string option" "import_alias list"
  | raw_BoolOp boolop "'t ir list"
  | raw_AugAssign "'t ir" operator "'t ir"
  | ir_Lit py_value lit_type
  | ir_BinaryOp op_tag "'t ir" "'t ir"
  | ir_UnaryOp op_tag "'t ir"
  | ir_Call "'t ir" "'t ir list"
  | ir_Choose "'t ir list"
  | ir_Field "'t ir" string
  | ir_ListAccess "'t ir" "'t ir"
  | ir_Unpack "'t ir"
  | ir_Assign "'t var" "'t ir"
  | ir_If "'t ir" "'t ir" "'t ir"
  | ir_While "'t ir" "'t ir list"
  | ir_Return "'t ir option"
  | ir_Branch branch_type
  | ir_Block "'t ir list"
  | ir_FnDecl string "'t var list" string "'t ir"
  | ir_Program "string list" "'t ir list"

datatype error =
    TypeError | NameError | KeyError | IndexError | AttributeError
  | NotImplementedError | AssertionError | ZeroDivisionError
  | ValueError | RuntimeError | OSError

section \<open>Lowering of expressions\<close>

text \<open>The operator dispatch of \<^verbatim>\<open>visit_BinOp\<close>, \<^verbatim>\<open>visit_UnaryOp\<close> and \<^verbatim>\<open>visit_Compare\<close>.\<close>

fun visit_BinOp_op :: "operator \<Rightarrow> error + op_tag" where
  "visit_BinOp_op ast_Add = Inr operator_add"
| "visit_BinOp_op ast_Sub = Inr operator_sub"
| "visit_BinOp_op ast_Mult = Inr operator_mul"
| "visit_BinOp_op ast_Div = Inr operator_floordiv"
| "visit_BinOp_op _ = Inl TypeError"

fun visit_UnaryOp_op :: "unaryop \<Rightarrow> error + op_tag" where
  "visit_UnaryOp_op ast_Not = Inr operator_not"
| "visit_UnaryOp_op _ = Inl TypeError"

fun visit_Compare_op :: "cmpop \<Rightarrow> error + op_tag" where
  "visit_Compare_op ast_Eq = Inr operator_eq"
| "visit_Compare_op ast_Lt = Inr operator_lt"
| "visit_Compare_op ast_Gt = Inr operator_gt"
| "visit_Compare_op ast_LtE = Inr operator_le"
| "visit_Compare_op ast_GtE = Inr operator_ge"
| "visit_Compare_op ast_NotEq = Inr operator_ne"
| "visit_Compare_op _ = Inl TypeError"


fun is_Name :: "expr \<Rightarrow> bool" where
  "is_Name (ast_Name _) = True"
| "is_Name _ = False"

text \<open>
  The test of \<^verbatim>\<open>visit_Call\<close>:
  \<^verbatim>\<open>fn == "Choose" or (isinstance(fn, ir.Field) and fn.target == "ir" and fn.name == "Choose")\<close>.
\<close>

fun is_Choose :: "'t ir \<Rightarrow> bool" where
  "is_Choose (py_str s) = (s = ''Choose'')"
| "is_Choose (ir_Field (py_str t) n) = (t = ''ir'' \<and> n = ''Choose'')"
| "is_Choose _ = False"

text \<open>
  \<^verbatim>\<open>generic_visit\<close> rebuilds a field that is a list: what the visit of an element returned
  is appended when it is a syntax node, and otherwise passed to \<^verbatim>\<open>list.extend\<close>, which
  adds the characters of a \<^verbatim>\<open>str\<close> one by one and raises \<^verbatim>\<open>TypeError\<close> for an object that
  cannot be iterated; the objects of \<^verbatim>\<open>ir\<close> are taken to be such plain objects.
  \<open>extend_values\<close> is what one visited element contributes.
\<close>

fun extend_values :: "'t ir \<Rightarrow> error + 't ir list" where
  "extend_values (py_str s) = Inr (map (\<lambda>c. py_str [c]) s)"
| "extend_values (raw_BoolOp op vs) = Inr [raw_BoolOp op vs]"
| "extend_values _ = Inl TypeError"

text \<open>
  \<^verbatim>\<open>self.vars\<close> is the symbol table of the function being translated. The entry points
  reach every statement and expression through \<^verbatim>\<open>visit_FunctionDef\<close>, which sets it to
  an empty dictionary first, so it is a dictionary here. The expression visitors only
  read it. \<open>visit_each\<close> is the comprehension \<^verbatim>\<open>[self.visit(a) for a in n.args]\<close>, and
  \<open>visit_values\<close> the loop of \<^verbatim>\<open>generic_visit\<close> over the operands of a boolean operation,
  which has no visitor: its operator is never inspected and the node is returned.
\<close>

fun visit :: "(string \<rightharpoonup> 't var) \<Rightarrow> expr \<Rightarrow> error + 't ir"
  and resolve :: "(string \<rightharpoonup> 't var) \<Rightarrow> expr \<Rightarrow> bool \<Rightarrow> error + 't ir"
  and visit_each :: "(string \<rightharpoonup> 't var) \<Rightarrow> expr list \<Rightarrow> error + 't ir list"
  and visit_values :: "(string \<rightharpoonup> 't var) \<Rightarrow> expr list \<Rightarrow> error + 't ir list"
where
  "visit vars (ast_Attribute v a) =
     (case visit vars v of Inl e \<Rightarrow> Inl e | Inr t \<Rightarrow> Inr (ir_Field t a))"
| "visit vars (ast_BinOp l op r) =
     (case visit_BinOp_op op of Inl e \<Rightarrow> Inl e | Inr new_op \<Rightarrow>
       (case (if is_Name l then resolve vars l True else visit vars l) of Inl e \<Rightarrow> Inl e
        | Inr left \<Rightarrow>
          (case (if is_Name r then resolve vars r True else visit vars r) of Inl e \<Rightarrow> Inl e
           | Inr right \<Rightarrow> Inr (ir_BinaryOp new_op left right))))"
| "visit vars (ast_UnaryOp op operand) =
     (case visit_UnaryOp_op op of Inl e \<Rightarrow> Inl e | Inr new_op \<Rightarrow>
       (case resolve vars operand True of Inl e \<Rightarrow> Inl e
        | Inr x \<Rightarrow> Inr (ir_UnaryOp new_op x)))"
| "visit vars (ast_Call func args) =
     (case visit_each vars args of Inl e \<Rightarrow> Inl e | Inr as \<Rightarrow>
       (case resolve vars func False of Inl e \<Rightarrow> Inl e
        | Inr fn \<Rightarrow> if is_Choose fn then Inr (ir_Choose as) else Inr (ir_Call fn as)))"
| "visit vars (ast_Compare l ops comparators) =
     (if length ops > 1 then Inl TypeError
      else if length comparators > 1 then Inl TypeError
      else (case ops of [] \<Rightarrow> Inl IndexError | op # _ \<Rightarrow>
        (case visit_Compare_op op of Inl e \<Rightarrow> Inl e | Inr new_op \<Rightarrow>
          (case resolve vars l True of Inl e \<Rightarrow> Inl e | Inr left \<Rightarrow>
            (case comparators of [] \<Rightarrow> Inl IndexError | c # _ \<Rightarrow>
              (case resolve vars c True of Inl e \<Rightarrow> Inl e
               | Inr right \<Rightarrow> Inr (ir_BinaryOp new_op left right)))))))"
| "visit vars (ast_BoolOp op vals) =
     (case visit_values vars vals of Inl e \<Rightarrow> Inl e | Inr vs \<Rightarrow> Inr (raw_BoolOp op vs))"
| "visit vars (ast_Constant v) =
     (case v of
        PyBool _ \<Rightarrow> Inr (ir_Lit v type_bool)
      | PyInt _ \<Rightarrow> Inr (ir_Lit v type_int)
      | PyNone \<Rightarrow> Inr (ir_Lit v type_None)
      | _ \<Rightarrow> Inl TypeError)"
| "visit vars (ast_Index v) = visit vars v"
| "visit vars (ast_Name x) = Inr (py_str x)"
| "visit vars (ast_Starred v) =
     (case visit vars v of Inl e \<Rightarrow> Inl e | Inr t \<Rightarrow> Inr (ir_Unpack t))"
| "visit vars (ast_Subscript v s) =
     (case visit vars v of Inl e \<Rightarrow> Inl e | Inr t \<Rightarrow>
       (case visit vars s of Inl e \<Rightarrow> Inl e | Inr i \<Rightarrow> Inr (ir_ListAccess t i)))"
| "resolve vars (ast_Name x) is_var =
     (if is_var then (case vars x of None \<Rightarrow> Inl NameError | Some v \<Rightarrow> Inr (ir_ref v))
      else Inr (py_str x))"
| "resolve vars (ast_Attribute v a) is_var = visit vars (ast_Attribute v a)"
| "resolve vars (ast_Constant c) is_var = visit vars (ast_Constant c)"
| "resolve vars (ast_Call f args) is_var = visit vars (ast_Call f args)"
| "resolve vars (ast_Subscript v s) is_var = Inl TypeError"
| "resolve vars _ is_var = Inl TypeError"
| "visit_each vars [] = Inr []"
| "visit_each vars (a # as) =
     (case visit vars a of Inl e \<Rightarrow> Inl e | Inr t \<Rightarrow>
       (case visit_each vars as of Inl e \<Rightarrow> Inl e | Inr ts \<Rightarrow> Inr (t # ts)))"
| "visit_values vars [] = Inr []"
| "visit_values vars (v # vs) =
     (case visit vars v of Inl e \<Rightarrow> Inl e | Inr t \<Rightarrow>
       (case extend_values t of Inl e \<Rightarrow> Inl e | Inr new \<Rightarrow>
         (case visit_values vars vs of Inl e \<Rightarrow> Inl e | Inr rest \<Rightarrow> Inr (new @ rest))))"

section \<open>Type annotations\<close>

text \<open>
  An annotation is only ever read by \<^verbatim>\<open>parse_type\<close>, never visited, so its tree has
  a type of its own: \<open>ann_X\<close> is a node of class \<^verbatim>\<open>ast.X\<close> in an annotation, and
  \<open>ann_other\<close> any node of another class. \<^verbatim>\<open>parse_type\<close> builds the text of the type;
  \<open>join\<close> is \<^verbatim>\<open>sep.join(xs)\<close>.
\<close>

datatype annot =
    ann_Name string
  | ann_Index annot
  | ann_Subscript annot annot
  | ann_List "annot list"
  | ann_Tuple "annot list"
  | ann_other

fun join :: "string \<Rightarrow> string list \<Rightarrow> string" where
  "join sep [] = []"
| "join sep [x] = x"
| "join sep (x # y # ys) = x @ sep @ join sep (y # ys)"

fun parse_type :: "annot \<Rightarrow> error + string"
  and parse_types :: "annot list \<Rightarrow> error + string list"
where
  "parse_type (ann_Name x) = Inr x"
| "parse_type (ann_Index v) = parse_type v"
| "parse_type (ann_Subscript v s) =
     (case parse_type v of Inl e \<Rightarrow> Inl e | Inr base \<Rightarrow>
       (case parse_type s of Inl e \<Rightarrow> Inl e
        | Inr elts \<Rightarrow> Inr (base @ ''['' @ elts @ '']'')))"
| "parse_type (ann_List elts) =
     (case parse_types elts of Inl e \<Rightarrow> Inl e
      | Inr ps \<Rightarrow> Inr (''['' @ join '', '' ps @ '']''))"
| "parse_type (ann_Tuple elts) =
     (case parse_types elts of Inl e \<Rightarrow> Inl e | Inr ps \<Rightarrow> Inr (join '', '' ps))"
| "parse_type ann_other = Inl TypeError"
| "parse_types [] = Inr []"
| "parse_types (t # ts) =
     (case parse_type t of Inl e \<Rightarrow> Inl e | Inr p \<Rightarrow>
       (case parse_types ts of Inl e \<Rightarrow> Inl e | Inr ps \<Rightarrow> Inr (p # ps)))"

text \<open>
  A missing annotation is \<^verbatim>\<open>None\<close>, for which \<^verbatim>\<open>parse_type\<close> reaches its last branch
  and raises \<^verbatim>\<open>TypeError\<close>.
\<close>

fun parse_type_opt :: "annot option \<Rightarrow> error + string" where
  "parse_type_opt None = Inl TypeError"
| "parse_type_opt (Some t) = parse_type t"

section \<open>Lowering of statements\<close>

datatype arg = ast_arg (arg_name: string) (arg_annotation: "annot option")

text \<open>
  \<open>ast_FunctionDef name args body returns\<close>, where \<open>args\<close> is the list
  \<^verbatim>\<open>n.args.args\<close>, the only field of \<^verbatim>\<open>ast.arguments\<close> that \<^verbatim>\<open>visit_arguments\<close> reads.
\<close>

datatype stmt =
    ast_FunctionDef string "arg list" "stmt list" "annot option"
  | ast_AnnAssign expr annot "expr option"
  | ast_Assign "expr list" expr
  | ast_AugAssign expr operator expr
  | ast_If expr "stmt list" "stmt list"
  | ast_While expr "stmt list" "stmt list"
  | ast_Return "expr option"
  | ast_Break
  | ast_Continue
  | ast_Expr expr
  | ast_Import "import_alias list"
  | ast_ImportFrom "string option" "import_alias list"

text \<open>
  \<^verbatim>\<open>visit_arguments\<close>: each parameter's annotation is parsed and evaluated, and the
  new \<^verbatim>\<open>ir.Var\<close> is registered under its name. The function \<open>ev\<close> stands for Python's
  \<^verbatim>\<open>eval\<close> of the text of a type, which may raise.
\<close>

fun visit_arguments ::
  "(string \<Rightarrow> error + 't) \<Rightarrow> (string \<rightharpoonup> 't var) \<Rightarrow> arg list
     \<Rightarrow> error + ('t var list \<times> (string \<rightharpoonup> 't var))"
where
  "visit_arguments ev vars [] = Inr ([], vars)"
| "visit_arguments ev vars (a # as) =
     (case parse_type_opt (arg_annotation a) of Inl e \<Rightarrow> Inl e | Inr parsed_type \<Rightarrow>
       (case ev parsed_type of Inl e \<Rightarrow> Inl e | Inr type_ \<Rightarrow>
         (let v = ir_Var (arg_name a) type_ in
           (case visit_arguments ev (vars(var_name v \<mapsto> v)) as of Inl e \<Rightarrow> Inl e
            | Inr (args, vars') \<Rightarrow> Inr (v # args, vars')))))"

text \<open>
  The test of \<^verbatim>\<open>visit_Return\<close>, \<^verbatim>\<open>isinstance\<close> of \<^verbatim>\<open>ast.Name\<close>, \<^verbatim>\<open>ast.Num\<close> or
  \<^verbatim>\<open>ast.Str\<close>: a constant is an \<^verbatim>\<open>ast.Num\<close> when its value is a number that is not a
  \<^verbatim>\<open>bool\<close>, and an \<^verbatim>\<open>ast.Str\<close> when it is a \<^verbatim>\<open>str\<close>.
\<close>

fun is_non_expr :: "expr \<Rightarrow> bool" where
  "is_non_expr (ast_Name _) = True"
| "is_non_expr (ast_Constant (PyInt _)) = True"
| "is_non_expr (ast_Constant PyNumber) = True"
| "is_non_expr (ast_Constant (PyStr _)) = True"
| "is_non_expr _ = False"

text \<open>
  \<^verbatim>\<open>self.vars[k]\<close> in \<^verbatim>\<open>visit_Assign\<close>, where \<open>k\<close> is what visiting the target returned.
  The keys of the dictionary are names; a key that is not a \<^verbatim>\<open>str\<close> is found under no
  name and the lookup fails as for a missing name.
\<close>

fun vars_lookup :: "(string \<rightharpoonup> 't var) \<Rightarrow> 't ir \<Rightarrow> error + 't var" where
  "vars_lookup vars (py_str x) = (case vars x of None \<Rightarrow> Inl KeyError | Some v \<Rightarrow> Inr v)"
| "vars_lookup vars _ = Inl KeyError"

text \<open>
  The statement visitors. The symbol table is the only state they change
  (\<^verbatim>\<open>visit_AnnAssign\<close>, \<^verbatim>\<open>visit_arguments\<close> and the reset in \<^verbatim>\<open>visit_FunctionDef\<close>),
  so they take it and return it with their result; an exception leaves no result.
  \<open>visit_stmts\<close> is the comprehension \<^verbatim>\<open>[self.visit(s) for s in n.body]\<close>. An import
  statement has no visitor and \<^verbatim>\<open>generic_visit\<close> returns the node as it is. An
  augmented assignment has none either: \<^verbatim>\<open>generic_visit\<close> visits its target and its
  value, stores the results in the node and returns it, and never inspects its
  operator.
\<close>

fun visit_stmt ::
  "(string \<Rightarrow> error + 't) \<Rightarrow> (string \<rightharpoonup> 't var) \<Rightarrow> stmt
     \<Rightarrow> error + ('t ir \<times> (string \<rightharpoonup> 't var))"
  and visit_stmts ::
  "(string \<Rightarrow> error + 't) \<Rightarrow> (string \<rightharpoonup> 't var) \<Rightarrow> stmt list
     \<Rightarrow> error + ('t ir list \<times> (string \<rightharpoonup> 't var))"
where
  "visit_stmt ev vars (ast_AnnAssign target annotation val) =
     (case target of
        ast_Name x \<Rightarrow>
          (case parse_type annotation of Inl e \<Rightarrow> Inl e | Inr parsed_type \<Rightarrow>
            (case ev parsed_type of Inl e \<Rightarrow> Inl e | Inr type_ \<Rightarrow>
              (let v = ir_Var x type_; vars' = vars(var_name v \<mapsto> v) in
                (case val of
                   None \<Rightarrow> Inr (ir_ref v, vars')
                 | Some value \<Rightarrow>
                    (case (if is_Name value then resolve vars' value True
                           else visit vars' value) of
                       Inl e \<Rightarrow> Inl e
                     | Inr r \<Rightarrow> Inr (ir_Assign v r, vars'))))))
      | _ \<Rightarrow> Inl AttributeError)"
| "visit_stmt ev vars (ast_Assign targets value) =
     (case (if is_Name value then resolve vars value True else visit vars value) of
        Inl e \<Rightarrow> Inl e
      | Inr val \<Rightarrow>
          if length targets > 1 then Inl TypeError
          else (case targets of [] \<Rightarrow> Inl IndexError | t # _ \<Rightarrow>
            (case visit vars t of Inl e \<Rightarrow> Inl e | Inr k \<Rightarrow>
              (case vars_lookup vars k of Inl e \<Rightarrow> Inl e
               | Inr v \<Rightarrow> Inr (ir_Assign v val, vars)))))"
| "visit_stmt ev vars (ast_FunctionDef name args body returns) =
     (case visit_arguments ev Map.empty args of Inl e \<Rightarrow> Inl e | Inr (args', vars1) \<Rightarrow>
       (case visit_stmts ev vars1 body of Inl e \<Rightarrow> Inl e | Inr (body', vars2) \<Rightarrow>
         (case parse_type_opt returns of Inl e \<Rightarrow> Inl e
          | Inr rtype \<Rightarrow> Inr (ir_FnDecl name args' rtype (ir_Block body'), vars2))))"
| "visit_stmt ev vars (ast_If test body orelse) =
     (case visit vars test of Inl e \<Rightarrow> Inl e | Inr t \<Rightarrow>
       (case visit_stmts ev vars body of Inl e \<Rightarrow> Inl e | Inr (b, vars1) \<Rightarrow>
         (case visit_stmts ev vars1 orelse of Inl e \<Rightarrow> Inl e
          | Inr (c, vars2) \<Rightarrow> Inr (ir_If t (ir_Block b) (ir_Block c), vars2))))"
| "visit_stmt ev vars (ast_While test body orelse) =
     (case visit vars test of Inl e \<Rightarrow> Inl e | Inr t \<Rightarrow>
       (case visit_stmts ev vars body of Inl e \<Rightarrow> Inl e
        | Inr (b, vars1) \<Rightarrow> Inr (ir_While t b, vars1)))"
| "visit_stmt ev vars (ast_Return val) =
     (case val of
        None \<Rightarrow> Inr (ir_Return None, vars)
      | Some value \<Rightarrow>
          (case (if is_non_expr value then resolve vars value True else visit vars value) of
             Inl e \<Rightarrow> Inl e
           | Inr v \<Rightarrow> Inr (ir_Return (Some v), vars)))"
| "visit_stmt ev vars ast_Break = Inr (ir_Branch Branch_Break, vars)"
| "visit_stmt ev vars ast_Continue = Inr (ir_Branch Branch_Continue, vars)"
| "visit_stmt ev vars (ast_Expr value) =
     (case visit vars value of Inl e \<Rightarrow> Inl e | Inr v \<Rightarrow> Inr (v, vars))"
| "visit_stmt ev vars (ast_Import names) = Inr (raw_Import names, vars)"
| "visit_stmt ev vars (ast_ImportFrom m names) = Inr (raw_ImportFrom m names, vars)"
| "visit_stmt ev vars (ast_AugAssign target op value) =
     (case visit vars target of Inl e \<Rightarrow> Inl e | Inr t \<Rightarrow>
       (case visit vars value of Inl e \<Rightarrow> Inl e
        | Inr v \<Rightarrow> Inr (raw_AugAssign t op v, vars)))"
| "visit_stmts ev vars [] = Inr ([], vars)"
| "visit_stmts ev vars (s # ss) =
     (case visit_stmt ev vars s of Inl e \<Rightarrow> Inl e | Inr (x, vars1) \<Rightarrow>
       (case visit_stmts ev vars1 ss of Inl e \<Rightarrow> Inl e
        | Inr (xs, vars2) \<Rightarrow> Inr (x # xs, vars2)))"

section \<open>Modules\<close>

text \<open>
  The translator object: the registry of functions (every value is the placeholder
  \<^verbatim>\<open>None\<close>), the import names and the symbol table. \<open>Translator_init\<close> is
  \<^verbatim>\<open>__init__\<close>, where the symbol table, \<^verbatim>\<open>None\<close> in the source, is the empty one that
  \<^verbatim>\<open>visit_FunctionDef\<close> installs before it is first read.
\<close>

record 't translator =
  self_fns :: "string \<rightharpoonup> 't ir option"
  self_imports :: "string list"
  self_vars :: "string \<rightharpoonup> 't var"

definition Translator_init :: "'t translator" where
  "Translator_init = \<lparr>self_fns = Map.empty, self_imports = [], self_vars = Map.empty\<rparr>"

fun is_FunctionDef :: "stmt \<Rightarrow> bool" where
  "is_FunctionDef (ast_FunctionDef _ _ _ _) = True"
| "is_FunctionDef _ = False"

text \<open>
  The first loop of \<^verbatim>\<open>visit_Module\<close>. \<^verbatim>\<open>s.names[0]\<close> raises \<^verbatim>\<open>IndexError\<close> on an
  import statement without names, which the parser never produces. Only
  \<^verbatim>\<open>ast.Import\<close> is tested for: a statement \<^verbatim>\<open>from m import x\<close> adds nothing.
\<close>

fun Module_register :: "'t translator \<Rightarrow> stmt list \<Rightarrow> error + 't translator" where
  "Module_register self [] = Inr self"
| "Module_register self (ast_FunctionDef name args body returns # ss) =
     Module_register (self\<lparr>self_fns := (self_fns self)(name \<mapsto> None)\<rparr>) ss"
| "Module_register self (ast_Import names # ss) =
     (case names of [] \<Rightarrow> Inl IndexError
      | a # _ \<Rightarrow> Module_register (self\<lparr>self_imports := self_imports self @ [alias_name a]\<rparr>) ss)"
| "Module_register self (_ # ss) = Module_register self ss"

definition visit_Module ::
  "(string \<Rightarrow> error + 't) \<Rightarrow> 't translator \<Rightarrow> stmt list \<Rightarrow> error + ('t ir \<times> 't translator)"
where
  "visit_Module ev self body =
     (case Module_register self body of Inl e \<Rightarrow> Inl e | Inr self1 \<Rightarrow>
       (case visit_stmts ev (self_vars self1) (filter is_FunctionDef body) of Inl e \<Rightarrow> Inl e
        | Inr (fs, vars') \<Rightarrow> Inr (ir_Program (self_imports self1) fs, self1\<lparr>self_vars := vars'\<rparr>)))"

text \<open>\<^verbatim>\<open>translate\<close> and \<^verbatim>\<open>translate_file\<close>: a fresh translator visits the parsed module.\<close>

definition translate :: "(string \<Rightarrow> error + 't) \<Rightarrow> stmt list \<Rightarrow> error + 't ir" where
  "translate ev body =
     (case visit_Module ev Translator_init body of Inl e \<Rightarrow> Inl e | Inr (v, _) \<Rightarrow> Inr v)"

section \<open>Concrete execution: sampling and traces\<close>

text \<open>
  \<^verbatim>\<open>metalift/concrete.py\<close>. The classes \<^verbatim>\<open>Type\<close> and \<^verbatim>\<open>AnalysisResult\<close> are imported
  from modules that are not among the sources; the code reads the name of a type,
  and the name, the arguments (each through its \<^verbatim>\<open>type\<close>) and the return type of an
  analysis.
\<close>

datatype py_type = Type (type_name: string) (type_args: "py_type list")

datatype argument = Argument (argument_name: string) (argument_type: py_type)

record AnalysisResult =
  analysis_name :: string
  analysis_arguments :: "argument list"
  analysis_return_type :: py_type

definition MaxInt :: int where
  "MaxInt = push_bit (32 - 1) 1 - 1"

definition MinInt :: int where
  "MinInt = - push_bit (32 - 1) 1"

definition SpecialInt :: "int list" where
  "SpecialInt = [- 1, 1, 0, MinInt, MaxInt]"

definition SmallIntMin :: int where
  "SmallIntMin = - 13"

definition SmallIntMax :: int where
  "SmallIntMax = 13"

text \<open>
  The random source \<^verbatim>\<open>random.Random\<close> belongs to the standard library. It is a state
  \<open>r\<close> and the one primitive from which the library derives both methods used here:
  \<open>rb r n\<close> draws a number below \<open>n\<close> and returns it with the next state.
  \<^verbatim>\<open>choice(seq)\<close> is \<^verbatim>\<open>seq[randbelow(len(seq))]\<close> and raises \<^verbatim>\<open>IndexError\<close> on an empty
  sequence; \<^verbatim>\<open>randint(a, b)\<close> is \<^verbatim>\<open>a + randbelow(b - a + 1)\<close> and raises
  \<^verbatim>\<open>ValueError\<close> on an empty range. \<open>randbelow_ok\<close> is the library's promise about
  the primitive.
\<close>

definition randbelow_ok :: "('r \<Rightarrow> nat \<Rightarrow> nat \<times> 'r) \<Rightarrow> bool" where
  "randbelow_ok rb = (\<forall>r n. 0 < n \<longrightarrow> fst (rb r n) < n)"

definition Random_choice ::
  "('r \<Rightarrow> nat \<Rightarrow> nat \<times> 'r) \<Rightarrow> 'r \<Rightarrow> 'a list \<Rightarrow> error + ('a \<times> 'r)"
where
  "Random_choice rb r seq =
     (if seq = [] then Inl IndexError
      else (case rb r (length seq) of (i, r') \<Rightarrow>
        if i < length seq then Inr (seq ! i, r') else Inl IndexError))"

definition Random_randint ::
  "('r \<Rightarrow> nat \<Rightarrow> nat \<times> 'r) \<Rightarrow> 'r \<Rightarrow> int \<Rightarrow> int \<Rightarrow> error + (int \<times> 'r)"
where
  "Random_randint rb r a b =
     (if b < a then Inl ValueError
      else (case rb r (nat (b - a + 1)) of (i, r') \<Rightarrow> Inr (a + int i, r')))"

text \<open>
  \<^verbatim>\<open>Generator.sample_int\<close>. A sample is a Python value: an \<^verbatim>\<open>int\<close>, or \<^verbatim>\<open>None\<close> where
  the method ends without a \<^verbatim>\<open>return\<close>.
\<close>

definition sample_int ::
  "('r \<Rightarrow> nat \<Rightarrow> nat \<times> 'r) \<Rightarrow> 'r \<Rightarrow> error + (py_value \<times> 'r)"
where
  "sample_int rb r =
     (case Random_choice rb r [''All'', ''Small'', ''Special''] of Inl e \<Rightarrow> Inl e
      | Inr (choice, r1) \<Rightarrow>
          if choice = ''All'' then
            (case Random_randint rb r1 MinInt MaxInt of Inl e \<Rightarrow> Inl e
             | Inr (v, r2) \<Rightarrow> Inr (PyInt v, r2))
          else if choice = ''Small'' then
            (case Random_randint rb r1 SmallIntMin SmallIntMax of Inl e \<Rightarrow> Inl e
             | Inr (v, r2) \<Rightarrow> Inr (PyInt v, r2))
          else if choice = ''Special'' then
            (case Random_choice rb r1 SpecialInt of Inl e \<Rightarrow> Inl e
             | Inr (v, r2) \<Rightarrow> Inr (PyInt v, r2))
          else Inr (PyNone, r1))"

definition sample_tpe ::
  "('r \<Rightarrow> nat \<Rightarrow> nat \<times> 'r) \<Rightarrow> 'r \<Rightarrow> py_type \<Rightarrow> error + (py_value \<times> 'r)"
where
  "sample_tpe rb r tpe =
     (if type_name tpe = ''Int'' then sample_int rb r else Inl NotImplementedError)"

text \<open>
  The comprehension of \<^verbatim>\<open>sample_args\<close> over the arguments, in their order; the
  random source goes from one sample to the next.
\<close>

fun sample_each ::
  "('r \<Rightarrow> nat \<Rightarrow> nat \<times> 'r) \<Rightarrow> 'r \<Rightarrow> argument list \<Rightarrow> error + (py_value list \<times> 'r)"
where
  "sample_each rb r [] = Inr ([], r)"
| "sample_each rb r (arg # rest) =
     (case sample_tpe rb r (argument_type arg) of Inl e \<Rightarrow> Inl e | Inr (v, r1) \<Rightarrow>
       (case sample_each rb r1 rest of Inl e \<Rightarrow> Inl e
        | Inr (vs, r2) \<Rightarrow> Inr (v # vs, r2)))"

definition sample_args ::
  "('r \<Rightarrow> nat \<Rightarrow> nat \<times> 'r) \<Rightarrow> 'r \<Rightarrow> AnalysisResult \<Rightarrow> error + (py_value list \<times> 'r)"
where
  "sample_args rb r analysis = sample_each rb r (analysis_arguments analysis)"

text \<open>
  \<^verbatim>\<open>gen_traces\<close>. The compiled callable is a function from the list of its Python
  arguments to the value it returns. \<open>gen_traces_loop\<close> is the \<^verbatim>\<open>for\<close> loop, with the
  number of rounds left and the list \<^verbatim>\<open>traces\<close> built so far.
\<close>

fun gen_traces_loop ::
  "(py_value list \<Rightarrow> 'a) \<Rightarrow> AnalysisResult \<Rightarrow> ('r \<Rightarrow> nat \<Rightarrow> nat \<times> 'r) \<Rightarrow> 'r
     \<Rightarrow> ('a \<times> py_value list) list \<Rightarrow> nat \<Rightarrow> error + (('a \<times> py_value list) list \<times> 'r)"
where
  "gen_traces_loop cfunc analysis rb r traces 0 = Inr (traces, r)"
| "gen_traces_loop cfunc analysis rb r traces (Suc n) =
     (case sample_args rb r analysis of Inl e \<Rightarrow> Inl e
      | Inr (args, r1) \<Rightarrow>
          gen_traces_loop cfunc analysis rb r1 (traces @ [(cfunc args, args)]) n)"

definition gen_traces ::
  "(py_value list \<Rightarrow> 'a) \<Rightarrow> AnalysisResult \<Rightarrow> ('r \<Rightarrow> nat \<Rightarrow> nat \<times> 'r) \<Rightarrow> 'r \<Rightarrow> int
     \<Rightarrow> error + (('a \<times> py_value list) list \<times> 'r)"
where
  "gen_traces cfunc analysis rb r count =
     (if \<not> count \<ge> 0 then Inl AssertionError
      else gen_traces_loop cfunc analysis rb r [] (nat count))"

text \<open>
  What a record of a trace is: the value the callable returns on the record's argument
  list, which holds one integer of the signed 32-bit range per argument of the
  analysis.
\<close>

definition trace_ok :: "(py_value list \<Rightarrow> 'a) \<Rightarrow> AnalysisResult \<Rightarrow> 'a \<times> py_value list \<Rightarrow> bool"
where
  "trace_ok cfunc analysis t =
     (fst t = cfunc (snd t) \<and> length (snd t) = length (analysis_arguments analysis)
      \<and> (\<forall>a\<in>set (snd t). \<exists>i. a = PyInt i \<and> MinInt \<le> i \<and> i \<le> MaxInt))"

section \<open>Concrete execution: the native bridge\<close>

datatype c_type = c_int

text \<open>\<^verbatim>\<open>ctypes.CFUNCTYPE(restype, *argtypes)\<close>, and a prototype applied to an address.\<close>

datatype c_functype = CFUNCTYPE c_type "c_type list"

datatype c_func = CFunc c_functype nat

definition meta_tpe_to_c_tpe :: "py_type \<Rightarrow> error + c_type" where
  "meta_tpe_to_c_tpe tpe =
     (if type_name tpe = ''Int'' then Inr c_int else Inl NotImplementedError)"

fun meta_tpes_to_c_tpes :: "py_type list \<Rightarrow> error + c_type list" where
  "meta_tpes_to_c_tpes [] = Inr []"
| "meta_tpes_to_c_tpes (tpe # tpes) =
     (case meta_tpe_to_c_tpe tpe of Inl e \<Rightarrow> Inl e | Inr c \<Rightarrow>
       (case meta_tpes_to_c_tpes tpes of Inl e \<Rightarrow> Inl e | Inr cs \<Rightarrow> Inr (c # cs)))"

definition analysis_to_c_func :: "AnalysisResult \<Rightarrow> error + c_functype" where
  "analysis_to_c_func analysis =
     (let types = [analysis_return_type analysis]
                    @ map argument_type (analysis_arguments analysis)
      in (case meta_tpes_to_c_tpes types of
            Inl e \<Rightarrow> Inl e
          | Inr [] \<Rightarrow> Inl TypeError
          | Inr (restype # argtypes) \<Rightarrow> Inr (CFUNCTYPE restype argtypes)))"

text \<open>
  \<^verbatim>\<open>compile_function\<close>. Reading the file, parsing and verifying the module, creating
  or reusing the engine, loading the module and looking the function's address up
  are the work of the file system and of LLVM: \<open>load filename name\<close> is the outcome of
  all of it, the address or the exception raised on the way. The prototype is built
  after that and applied to the address.
\<close>

definition compile_function ::
  "(string \<Rightarrow> string \<Rightarrow> error + nat) \<Rightarrow> string \<Rightarrow> AnalysisResult \<Rightarrow> error + c_func"
where
  "compile_function load filename analysis =
     (case load filename (analysis_name analysis) of Inl e \<Rightarrow> Inl e
      | Inr func_ptr \<Rightarrow>
          (case analysis_to_c_func analysis of Inl e \<Rightarrow> Inl e
           | Inr proto \<Rightarrow> Inr (CFunc proto func_ptr)))"

section \<open>The rules of the specification\<close>

text \<open>
  The operand rule in the words of the specification: an operand that is a bare
  identifier is looked up in the symbol table and becomes a reference to the
  registered variable (\<^verbatim>\<open>NameError\<close> when there is none); any other operand is lowered
  by the generic visitor.
\<close>

definition lower_operand :: "(string \<rightharpoonup> 't var) \<Rightarrow> expr \<Rightarrow> error + 't ir" where
  "lower_operand vars e =
     (case e of
        ast_Name x \<Rightarrow> (case vars x of None \<Rightarrow> Inl NameError | Some v \<Rightarrow> Inr (ir_ref v))
      | _ \<Rightarrow> visit vars e)"

text \<open>
  The node kinds that \<^verbatim>\<open>resolve\<close> hands on: a name, an attribute access, a constant
  and a call.
\<close>

fun resolvable :: "expr \<Rightarrow> bool" where
  "resolvable (ast_Name _) = True"
| "resolvable (ast_Attribute _ _) = True"
| "resolvable (ast_Constant _) = True"
| "resolvable (ast_Call _ _) = True"
| "resolvable _ = False"

text \<open>
  The names of the functions declared at the top of a module, and the names that its
  \<^verbatim>\<open>import\<close> statements import, both in the order of the statements. \<open>single_imports\<close>
  holds of a module whose \<^verbatim>\<open>import\<close> statements name one module each.
\<close>

fun declared_functions :: "stmt list \<Rightarrow> string list" where
  "declared_functions [] = []"
| "declared_functions (ast_FunctionDef name args body returns # ss) =
     name # declared_functions ss"
| "declared_functions (_ # ss) = declared_functions ss"

fun import_names :: "stmt list \<Rightarrow> string list" where
  "import_names [] = []"
| "import_names (ast_Import names # ss) = map alias_name names @ import_names ss"
| "import_names (_ # ss) = import_names ss"

fun single_imports :: "stmt list \<Rightarrow> bool" where
  "single_imports [] = True"
| "single_imports (ast_Import names # ss) = (length names = 1 \<and> single_imports ss)"
| "single_imports (_ # ss) = single_imports ss"

section \<open>The operator table\<close>












section \<open>Bare identifiers lowered by the generic visitor\<close>


section \<open>Properties of the sampler\<close>

lemma MinInt_value: "MinInt = - 2147483648"
  by (simp add: MinInt_def)

lemma MaxInt_value: "MaxInt = 2147483647"
  by (simp add: MaxInt_def)

lemma Random_choice_ok:
  assumes "randbelow_ok rb" and "seq \<noteq> []"
  shows "Random_choice rb r seq = Inr (seq ! fst (rb r (length seq)), snd (rb r (length seq)))
         \<and> fst (rb r (length seq)) < length seq"
proof -
  have "0 < length seq" using assms(2) by simp
  then have "fst (rb r (length seq)) < length seq"
    using assms(1) unfolding randbelow_ok_def by blast
  then show ?thesis
    using assms(2) by (simp add: Random_choice_def case_prod_beta)
qed

lemma choose_class:
  assumes "randbelow_ok rb"
  shows "Random_choice rb r [''All'', ''Small'', ''Special''] =
           Inr ([''All'', ''Small'', ''Special''] ! fst (rb r 3), snd (rb r 3))
         \<and> fst (rb r 3) < 3"
proof -
  have len: "length [''All'', ''Small'', ''Special''] = 3" by simp
  show ?thesis
    using Random_choice_ok [OF assms, of "[''All'', ''Small'', ''Special'']" r]
    unfolding len by simp
qed

lemma Random_randint_ok:
  assumes "randbelow_ok rb" and "a \<le> b"
  shows "Random_randint rb r a b =
           Inr (a + int (fst (rb r (nat (b - a + 1)))), snd (rb r (nat (b - a + 1))))
         \<and> a \<le> a + int (fst (rb r (nat (b - a + 1))))
         \<and> a + int (fst (rb r (nat (b - a + 1)))) \<le> b"
proof -
  have "0 < nat (b - a + 1)" using assms(2) by simp
  then have "fst (rb r (nat (b - a + 1))) < nat (b - a + 1)"
    using assms(1) unfolding randbelow_ok_def by blast
  then have "int (fst (rb r (nat (b - a + 1)))) \<le> b - a"
    by arith
  then show ?thesis
    using assms(2) by (simp add: Random_randint_def case_prod_beta)
qed

lemma SpecialInt_nth:
  "j < 5 \<Longrightarrow> SpecialInt ! j \<in> {- 1, 1, 0, MinInt, MaxInt}"
  by (cases j rule: nat.exhaust; simp add: SpecialInt_def nth_Cons split: nat.splits)

lemma sample_int_All:
  assumes "randbelow_ok rb" and "fst (rb r 3) = 0"
  shows "sample_int rb r =
           Inr (PyInt (MinInt + int (fst (rb (snd (rb r 3)) 4294967296))),
                snd (rb (snd (rb r 3)) 4294967296))"
  using choose_class [OF assms(1), of r]
    Random_randint_ok [OF assms(1), of MinInt MaxInt "snd (rb r 3)"] assms(2)
  by (simp add: sample_int_def MinInt_value MaxInt_value)

lemma sample_int_Small:
  assumes "randbelow_ok rb" and "fst (rb r 3) = 1"
  shows "sample_int rb r =
           Inr (PyInt (SmallIntMin + int (fst (rb (snd (rb r 3)) 27))),
                snd (rb (snd (rb r 3)) 27))"
  using choose_class [OF assms(1), of r]
    Random_randint_ok [OF assms(1), of SmallIntMin SmallIntMax "snd (rb r 3)"] assms(2)
  by (simp add: sample_int_def SmallIntMin_def SmallIntMax_def)

lemma sample_int_Special:
  assumes "randbelow_ok rb" and "fst (rb r 3) = 2"
  shows "sample_int rb r =
           Inr (PyInt (SpecialInt ! fst (rb (snd (rb r 3)) 5)), snd (rb (snd (rb r 3)) 5))"
proof -
  have len: "length SpecialInt = 5" by (simp add: SpecialInt_def)
  have ne: "SpecialInt \<noteq> []" by (simp add: SpecialInt_def)
  show ?thesis
    using choose_class [OF assms(1), of r]
      Random_choice_ok [OF assms(1) ne, of "snd (rb r 3)"] assms(2)
    unfolding len by (simp add: sample_int_def)
qed

lemma class_below_3:
  assumes "randbelow_ok rb"
  shows "fst (rb r 3) = 0 \<or> fst (rb r 3) = 1 \<or> fst (rb r 3) = 2"
proof -
  have "fst (rb r 3) < 3" using assms unfolding randbelow_ok_def by simp
  then show ?thesis by arith
qed

lemma sample_int_range:
  assumes "randbelow_ok rb"
  shows "\<exists>v r'. sample_int rb r = Inr (PyInt v, r') \<and> MinInt \<le> v \<and> v \<le> MaxInt"
proof -
  let ?r1 = "snd (rb r 3)"
  have "fst (rb r 3) = 0 \<or> fst (rb r 3) = 1 \<or> fst (rb r 3) = 2"
    by (rule class_below_3 [OF assms])
  then consider (1) "fst (rb r 3) = 0" | (2) "fst (rb r 3) = 1" | (3) "fst (rb r 3) = 2"
    by (elim disjE) simp_all
  then show ?thesis
  proof cases
    case 1
    have "fst (rb ?r1 4294967296) < 4294967296"
      using assms unfolding randbelow_ok_def by simp
    then show ?thesis
      using sample_int_All [OF assms 1] by (simp add: MinInt_value MaxInt_value)
  next
    case 2
    have "fst (rb ?r1 27) < 27"
      using assms unfolding randbelow_ok_def by simp
    then show ?thesis
      using sample_int_Small [OF assms 2]
      by (simp add: MinInt_value MaxInt_value SmallIntMin_def)
  next
    case 3
    have "fst (rb ?r1 5) < 5"
      using assms unfolding randbelow_ok_def by simp
    then have "SpecialInt ! fst (rb ?r1 5) \<in> {- 1, 1, 0, MinInt, MaxInt}"
      by (rule SpecialInt_nth)
    then show ?thesis
      using sample_int_Special [OF assms 3] by (auto simp add: MinInt_value MaxInt_value)
  qed
qed

lemma full_range_bij:
  "bij_betw (\<lambda>j. MinInt + int j) {..<4294967296} {MinInt..MaxInt}"
  by (rule bij_betw_byWitness [where f' = "\<lambda>v. nat (v - MinInt)"])
    (auto simp add: MinInt_value MaxInt_value)

lemma small_range_bij:
  "bij_betw (\<lambda>j. SmallIntMin + int j) {..<27} {- 13..13}"
  by (rule bij_betw_byWitness [where f' = "\<lambda>v. nat (v - SmallIntMin)"])
    (auto simp add: SmallIntMin_def)

lemma special_distinct: "distinct SpecialInt \<and> set SpecialInt = {- 1, 1, 0, MinInt, MaxInt}
  \<and> length SpecialInt = 5"
  by (simp add: SpecialInt_def MinInt_value MaxInt_value)


text \<open>
  Claim C8. With a random source that keeps the library's promise, \<^verbatim>\<open>sample_int\<close>
  returns an integer of the signed 32-bit range. The class is the first draw, one of
  three: it selects the label at its index. In class \<^verbatim>\<open>All\<close> the value is \<open>MinInt\<close> plus
  a draw below \<open>2^32\<close>, in class \<^verbatim>\<open>Small\<close> it is \<open>-13\<close> plus a draw below \<open>27\<close>, in
  class \<^verbatim>\<open>Special\<close> it is the element of \<open>SpecialInt\<close> at a draw below \<open>5\<close>. Each of the
  three maps from the draw to the value is one-to-one and onto the set the claim
  names (the range from \<open>-2^31\<close> to \<open>2^31 - 1\<close>, the range from \<open>-13\<close> to \<open>13\<close>, the
  five distinct special values), so a uniform draw is a uniform value; that a draw
  is uniform is the library's part.
\<close>

theorem sample_int_classes:
  assumes "randbelow_ok rb"
  shows "(\<exists>v r'. sample_int rb r = Inr (PyInt v, r') \<and> MinInt \<le> v \<and> v \<le> MaxInt
           \<and> fst (rb r 3) < 3
           \<and> (fst (rb r 3) = 0 \<longrightarrow>
                 v = MinInt + int (fst (rb (snd (rb r 3)) 4294967296))
                 \<and> r' = snd (rb (snd (rb r 3)) 4294967296))
           \<and> (fst (rb r 3) = 1 \<longrightarrow>
                 v = - 13 + int (fst (rb (snd (rb r 3)) 27)) \<and> - 13 \<le> v \<and> v \<le> 13
                 \<and> r' = snd (rb (snd (rb r 3)) 27))
           \<and> (fst (rb r 3) = 2 \<longrightarrow>
                 v = SpecialInt ! fst (rb (snd (rb r 3)) 5)
                 \<and> v \<in> {- 1, 1, 0, MinInt, MaxInt}
                 \<and> r' = snd (rb (snd (rb r 3)) 5)))
         \<and> MinInt = - (2 ^ 31) \<and> MaxInt = 2 ^ 31 - 1
         \<and> bij_betw (\<lambda>j. MinInt + int j) {..<4294967296} {MinInt..MaxInt}
         \<and> bij_betw (\<lambda>j. - 13 + int j) {..<27} {- 13..13}
         \<and> distinct SpecialInt \<and> set SpecialInt = {- 1, 1, 0, MinInt, MaxInt}
         \<and> length SpecialInt = 5"
proof -
  let ?r1 = "snd (rb r 3)"
  obtain v r' where s: "sample_int rb r = Inr (PyInt v, r')" and lo: "MinInt \<le> v"
    and hi: "v \<le> MaxInt"
    using sample_int_range [OF assms, of r] by blast
  have c3: "fst (rb r 3) < 3"
    using assms unfolding randbelow_ok_def by simp
  have a: "fst (rb r 3) = 0 \<longrightarrow>
             v = MinInt + int (fst (rb ?r1 4294967296)) \<and> r' = snd (rb ?r1 4294967296)"
    using sample_int_All [OF assms, of r] s by auto
  have "fst (rb ?r1 27) < 27"
    using assms unfolding randbelow_ok_def by simp
  then have b: "fst (rb r 3) = 1 \<longrightarrow>
             v = - 13 + int (fst (rb ?r1 27)) \<and> - 13 \<le> v \<and> v \<le> 13
             \<and> r' = snd (rb ?r1 27)"
    using sample_int_Small [OF assms, of r] s by (auto simp add: SmallIntMin_def)
  have "fst (rb ?r1 5) < 5"
    using assms unfolding randbelow_ok_def by simp
  then have "SpecialInt ! fst (rb ?r1 5) \<in> {- 1, 1, 0, MinInt, MaxInt}"
    by (rule SpecialInt_nth)
  then have c: "fst (rb r 3) = 2 \<longrightarrow>
             v = SpecialInt ! fst (rb ?r1 5) \<and> v \<in> {- 1, 1, 0, MinInt, MaxInt}
             \<and> r' = snd (rb ?r1 5)"
    using sample_int_Special [OF assms, of r] s by auto
  have draw: "\<exists>v r'. sample_int rb r = Inr (PyInt v, r') \<and> MinInt \<le> v \<and> v \<le> MaxInt
           \<and> fst (rb r 3) < 3
           \<and> (fst (rb r 3) = 0 \<longrightarrow>
                 v = MinInt + int (fst (rb (snd (rb r 3)) 4294967296))
                 \<and> r' = snd (rb (snd (rb r 3)) 4294967296))
           \<and> (fst (rb r 3) = 1 \<longrightarrow>
                 v = - 13 + int (fst (rb (snd (rb r 3)) 27)) \<and> - 13 \<le> v \<and> v \<le> 13
                 \<and> r' = snd (rb (snd (rb r 3)) 27))
           \<and> (fst (rb r 3) = 2 \<longrightarrow>
                 v = SpecialInt ! fst (rb (snd (rb r 3)) 5)
                 \<and> v \<in> {- 1, 1, 0, MinInt, MaxInt}
                 \<and> r' = snd (rb (snd (rb r 3)) 5))"
    apply (rule exI [of _ v], rule exI [of _ r'])
    using s lo hi c3 a b c apply (intro conjI)
    apply assumption+
    done
  have bounds: "MinInt = - (2 ^ 31) \<and> MaxInt = 2 ^ 31 - 1"
    by (simp add: MinInt_value MaxInt_value)
  have small: "bij_betw (\<lambda>j. - 13 + int j) {..<27} {- 13..13}"
    using small_range_bij by (simp add: SmallIntMin_def)
  show ?thesis
    using draw bounds full_range_bij small special_distinct by (intro conjI) blast+
qed

lemma counter_ok: "randbelow_ok (\<lambda>(r::nat) n. (r mod n, Suc r))"
  by (simp add: randbelow_ok_def)

theorem sample_int_classes_witness:
  "randbelow_ok (\<lambda>(r::nat) n. (r mod n, Suc r))
   \<and> sample_int (\<lambda>(r::nat) n. (r mod n, Suc r)) 2 = Inr (PyInt (- 2147483648), 4)
   \<and> sample_int (\<lambda>(r::nat) n. (r mod n, Suc r)) 1 = Inr (PyInt (- 11), 3)
   \<and> sample_int (\<lambda>(r::nat) n. (r mod n, Suc r)) 0 = Inr (PyInt (- 2147483647), 2)"
  using sample_int_classes [OF counter_ok, of 2] sample_int_classes [OF counter_ok, of 1]
    sample_int_classes [OF counter_ok, of 0] counter_ok
  by (auto simp add: SpecialInt_def MinInt_value MaxInt_value)


section \<open>Properties of the bridge and of trace generation\<close>

lemma meta_tpes_all_Int:
  "(\<forall>t\<in>set ts. type_name t = ''Int'') \<Longrightarrow>
     meta_tpes_to_c_tpes ts = Inr (replicate (length ts) c_int)"
  by (induction ts) (simp_all add: meta_tpe_to_c_tpe_def)

lemma meta_tpes_some_other:
  "(\<exists>t\<in>set ts. type_name t \<noteq> ''Int'') \<Longrightarrow>
     meta_tpes_to_c_tpes ts = Inl NotImplementedError"
  by (induction ts) (auto simp add: meta_tpe_to_c_tpe_def split: sum.splits)

lemma meta_tpes_Inr_iff:
  "(\<exists>cs. meta_tpes_to_c_tpes ts = Inr cs) = (\<forall>t\<in>set ts. type_name t = ''Int'')"
proof (cases "\<forall>t\<in>set ts. type_name t = ''Int''")
  case True
  then show ?thesis using meta_tpes_all_Int [of ts] by simp
next
  case False
  then have "meta_tpes_to_c_tpes ts = Inl NotImplementedError"
    using meta_tpes_some_other [of ts] by blast
  then show ?thesis using False by simp
qed

lemma analysis_to_c_func_Inr:
  "analysis_to_c_func analysis = Inr proto \<Longrightarrow>
     \<forall>a\<in>set (analysis_arguments analysis). type_name (argument_type a) = ''Int''"
proof -
  assume p: "analysis_to_c_func analysis = Inr proto"
  let ?ts = "analysis_return_type analysis # map argument_type (analysis_arguments analysis)"
  have "\<exists>cs. meta_tpes_to_c_tpes ?ts = Inr cs"
    using p by (auto simp add: analysis_to_c_func_def split: sum.splits)
  then have "\<forall>t\<in>set ?ts. type_name t = ''Int''"
    by (simp only: meta_tpes_Inr_iff)
  then show ?thesis by simp
qed

lemma sample_each_ok:
  assumes "randbelow_ok rb"
  shows "(\<forall>a\<in>set args. type_name (argument_type a) = ''Int'') \<Longrightarrow>
         \<exists>vs r'. sample_each rb r args = Inr (vs, r') \<and> length vs = length args
           \<and> (\<forall>a\<in>set vs. \<exists>i. a = PyInt i \<and> MinInt \<le> i \<and> i \<le> MaxInt)"
proof (induction args arbitrary: r)
  case Nil
  then show ?case by simp
next
  case (Cons a args)
  obtain v r1 where s: "sample_int rb r = Inr (PyInt v, r1)" and "MinInt \<le> v" "v \<le> MaxInt"
    using sample_int_range [OF assms, of r] by blast
  moreover obtain vs r2 where "sample_each rb r1 args = Inr (vs, r2)" "length vs = length args"
      "\<forall>a\<in>set vs. \<exists>i. a = PyInt i \<and> MinInt \<le> i \<and> i \<le> MaxInt"
    using Cons.IH [of r1] Cons.prems by auto
  ultimately show ?case
    using Cons.prems by (simp add: sample_tpe_def)
qed

lemma sample_each_unsupported:
  assumes "randbelow_ok rb"
  shows "(\<exists>a\<in>set args. type_name (argument_type a) \<noteq> ''Int'') \<Longrightarrow>
         sample_each rb r args = Inl NotImplementedError"
proof (induction args arbitrary: r)
  case Nil
  then show ?case by simp
next
  case (Cons a args)
  show ?case
  proof (cases "type_name (argument_type a) = ''Int''")
    case True
    obtain v r1 where s: "sample_int rb r = Inr (PyInt v, r1)"
      using sample_int_range [OF assms, of r] by blast
    have "sample_each rb r1 args = Inl NotImplementedError"
      using Cons.IH [of r1] Cons.prems True by auto
    then show ?thesis using True s by (simp add: sample_tpe_def)
  next
    case False
    then show ?thesis by (simp add: sample_tpe_def)
  qed
qed

lemma gen_traces_loop_step:
  "gen_traces_loop cfunc analysis rb r acc (Suc n) =
     (case gen_traces_loop cfunc analysis rb r acc n of Inl e \<Rightarrow> Inl e
      | Inr (ts, r1) \<Rightarrow>
          (case sample_args rb r1 analysis of Inl e \<Rightarrow> Inl e
           | Inr (args, r2) \<Rightarrow> Inr (ts @ [(cfunc args, args)], r2)))"
proof (induction n arbitrary: r acc)
  case 0
  then show ?case by (simp split: sum.splits)
next
  case (Suc n)
  show ?case
  proof (cases "sample_args rb r analysis")
    case (Inl e)
    then show ?thesis by simp
  next
    case (Inr p)
    obtain args r1 where p: "p = (args, r1)" by (cases p)
    have "gen_traces_loop cfunc analysis rb r acc (Suc (Suc n)) =
            gen_traces_loop cfunc analysis rb r1 (acc @ [(cfunc args, args)]) (Suc n)"
      using Inr p by simp
    also have "\<dots> =
       (case gen_traces_loop cfunc analysis rb r1 (acc @ [(cfunc args, args)]) n of
          Inl e \<Rightarrow> Inl e
        | Inr (ts, r1) \<Rightarrow>
          (case sample_args rb r1 analysis of Inl e \<Rightarrow> Inl e
           | Inr (args, r2) \<Rightarrow> Inr (ts @ [(cfunc args, args)], r2)))"
      by (rule Suc.IH)
    also have "gen_traces_loop cfunc analysis rb r1 (acc @ [(cfunc args, args)]) n =
            gen_traces_loop cfunc analysis rb r acc (Suc n)"
      using Inr p by simp
    finally show ?thesis .
  qed
qed

lemma gen_traces_loop_ok:
  assumes "randbelow_ok rb"
    and "\<forall>a\<in>set (analysis_arguments analysis). type_name (argument_type a) = ''Int''"
  shows "\<exists>ts r'. gen_traces_loop cfunc analysis rb r acc n = Inr (acc @ ts, r')
           \<and> length ts = n \<and> (\<forall>t\<in>set ts. trace_ok cfunc analysis t)"
proof (induction n arbitrary: r acc)
  case 0
  then show ?case by simp
next
  case (Suc n)
  obtain args r1 where s: "sample_args rb r analysis = Inr (args, r1)"
      and len: "length args = length (analysis_arguments analysis)"
      and rng: "\<forall>a\<in>set args. \<exists>i. a = PyInt i \<and> MinInt \<le> i \<and> i \<le> MaxInt"
    using sample_each_ok [OF assms(1), of "analysis_arguments analysis" r] assms(2)
    unfolding sample_args_def by blast
  obtain ts r' where l: "gen_traces_loop cfunc analysis rb r1 (acc @ [(cfunc args, args)]) n =
        Inr ((acc @ [(cfunc args, args)]) @ ts, r')" and lt: "length ts = n"
      and ok: "\<forall>t\<in>set ts. trace_ok cfunc analysis t"
    using Suc.IH [of r1 "acc @ [(cfunc args, args)]"] by blast
  have "trace_ok cfunc analysis (cfunc args, args)"
    using len rng by (simp add: trace_ok_def)
  then have "gen_traces_loop cfunc analysis rb r acc (Suc n) = Inr (acc @ ((cfunc args, args) # ts), r')
      \<and> length ((cfunc args, args) # ts) = Suc n
      \<and> (\<forall>t\<in>set ((cfunc args, args) # ts). trace_ok cfunc analysis t)"
    using s l lt ok by simp
  then show ?case by blast
qed


text \<open>
  Claim C7. The callable was compiled for the analysis, so the prototype of the
  analysis was built, and the random source keeps the library's promise. Then a
  negative count fails the assertion; count zero gives the empty list and leaves the
  random source as it was; a count \<open>n \<ge> 0\<close> gives exactly \<open>n\<close> records, each the value
  returned by the callable on the argument list of the record, which has one sampled
  integer of the signed 32-bit range per argument of the analysis; and the records of
  count \<open>n + 1\<close> are the records of count \<open>n\<close> followed by one more, made by sampling
  an argument list from the random source as the first \<open>n\<close> rounds left it, calling
  the callable on it and appending the pair.
\<close>

theorem gen_traces_records:
  assumes "randbelow_ok rb" and "analysis_to_c_func analysis = Inr proto"
  shows "(count < 0 \<longrightarrow> gen_traces cfunc analysis rb r count = Inl AssertionError)
    \<and> gen_traces cfunc analysis rb r 0 = Inr ([], r)
    \<and> (0 \<le> count \<longrightarrow>
         (\<exists>traces r'. gen_traces cfunc analysis rb r count = Inr (traces, r')
            \<and> int (length traces) = count
            \<and> (\<forall>t\<in>set traces. fst t = cfunc (snd t)
                  \<and> length (snd t) = length (analysis_arguments analysis)
                  \<and> (\<forall>a\<in>set (snd t). \<exists>i. a = PyInt i \<and> MinInt \<le> i \<and> i \<le> MaxInt))))
    \<and> (0 \<le> count \<longrightarrow>
         gen_traces cfunc analysis rb r (count + 1) =
           (case gen_traces cfunc analysis rb r count of Inl e \<Rightarrow> Inl e
            | Inr (ts, r1) \<Rightarrow>
                (case sample_args rb r1 analysis of Inl e \<Rightarrow> Inl e
                 | Inr (args, r2) \<Rightarrow> Inr (ts @ [(cfunc args, args)], r2))))"
proof -
  have ints: "\<forall>a\<in>set (analysis_arguments analysis). type_name (argument_type a) = ''Int''"
    using assms(2) by (rule analysis_to_c_func_Inr)
  have neg: "count < 0 \<longrightarrow> gen_traces cfunc analysis rb r count = Inl AssertionError"
    by (simp add: gen_traces_def)
  have zero: "gen_traces cfunc analysis rb r 0 = Inr ([], r)"
    by (simp add: gen_traces_def)
  have recs: "0 \<le> count \<longrightarrow>
         (\<exists>traces r'. gen_traces cfunc analysis rb r count = Inr (traces, r')
            \<and> int (length traces) = count
            \<and> (\<forall>t\<in>set traces. fst t = cfunc (snd t)
                  \<and> length (snd t) = length (analysis_arguments analysis)
                  \<and> (\<forall>a\<in>set (snd t). \<exists>i. a = PyInt i \<and> MinInt \<le> i \<and> i \<le> MaxInt)))"
  proof
    assume c: "0 \<le> count"
    obtain ts r' where l: "gen_traces_loop cfunc analysis rb r [] (nat count) = Inr ([] @ ts, r')"
        and n: "length ts = nat count" and ok: "\<forall>t\<in>set ts. trace_ok cfunc analysis t"
      using gen_traces_loop_ok [OF assms(1) ints, of cfunc r "[]" "nat count"] by blast
    have "gen_traces cfunc analysis rb r count = Inr (ts, r')"
      using c l by (simp add: gen_traces_def)
    moreover have "int (length ts) = count"
      using c n by simp
    moreover have "\<forall>t\<in>set ts. fst t = cfunc (snd t)
                  \<and> length (snd t) = length (analysis_arguments analysis)
                  \<and> (\<forall>a\<in>set (snd t). \<exists>i. a = PyInt i \<and> MinInt \<le> i \<and> i \<le> MaxInt)"
      using ok unfolding trace_ok_def .
    ultimately show "\<exists>traces r'. gen_traces cfunc analysis rb r count = Inr (traces, r')
            \<and> int (length traces) = count
            \<and> (\<forall>t\<in>set traces. fst t = cfunc (snd t)
                  \<and> length (snd t) = length (analysis_arguments analysis)
                  \<and> (\<forall>a\<in>set (snd t). \<exists>i. a = PyInt i \<and> MinInt \<le> i \<and> i \<le> MaxInt))"
      by blast
  qed
  have step: "0 \<le> count \<longrightarrow>
         gen_traces cfunc analysis rb r (count + 1) =
           (case gen_traces cfunc analysis rb r count of Inl e \<Rightarrow> Inl e
            | Inr (ts, r1) \<Rightarrow>
                (case sample_args rb r1 analysis of Inl e \<Rightarrow> Inl e
                 | Inr (args, r2) \<Rightarrow> Inr (ts @ [(cfunc args, args)], r2)))"
  proof
    assume c: "0 \<le> count"
    then have "nat (count + 1) = Suc (nat count)" by simp
    then show "gen_traces cfunc analysis rb r (count + 1) =
           (case gen_traces cfunc analysis rb r count of Inl e \<Rightarrow> Inl e
            | Inr (ts, r1) \<Rightarrow>
                (case sample_args rb r1 analysis of Inl e \<Rightarrow> Inl e
                 | Inr (args, r2) \<Rightarrow> Inr (ts @ [(cfunc args, args)], r2)))"
      using c gen_traces_loop_step [of cfunc analysis rb r "[]" "nat count"]
      by (simp add: gen_traces_def)
  qed
  show ?thesis
    using neg zero recs step by (intro conjI)
qed

theorem gen_traces_records_witness:
  "randbelow_ok (\<lambda>(r::nat) n. (r mod n, Suc r))
   \<and> analysis_to_c_func \<lparr>analysis_name = ''f'',
        analysis_arguments = [Argument ''x'' (Type ''Int'' [])],
        analysis_return_type = Type ''Int'' []\<rparr> = Inr (CFUNCTYPE c_int [c_int])
   \<and> gen_traces length \<lparr>analysis_name = ''f'',
        analysis_arguments = [Argument ''x'' (Type ''Int'' [])],
        analysis_return_type = Type ''Int'' []\<rparr> (\<lambda>(r::nat) n. (r mod n, Suc r)) 0 (- 1)
       = Inl AssertionError
   \<and> gen_traces length \<lparr>analysis_name = ''f'',
        analysis_arguments = [Argument ''x'' (Type ''Int'' [])],
        analysis_return_type = Type ''Int'' []\<rparr> (\<lambda>(r::nat) n. (r mod n, Suc r)) 0 2
       = Inr ([(1, [PyInt (- 2147483647)]), (1, [PyInt (- 2147483648)])], 4)"
proof -
  let ?A = "\<lparr>analysis_name = ''f'',
        analysis_arguments = [Argument ''x'' (Type ''Int'' [])],
        analysis_return_type = Type ''Int'' []\<rparr>"
  have p: "analysis_to_c_func ?A = Inr (CFUNCTYPE c_int [c_int])"
    by (simp add: analysis_to_c_func_def meta_tpe_to_c_tpe_def)
  have s0: "sample_args (\<lambda>(r::nat) n. (r mod n, Suc r)) 0 ?A = Inr ([PyInt (- 2147483647)], 2)"
    by (simp add: sample_args_def sample_tpe_def sample_int_def Random_choice_def
        Random_randint_def MinInt_value MaxInt_value)
  have s2: "sample_args (\<lambda>(r::nat) n. (r mod n, Suc r)) 2 ?A = Inr ([PyInt (- 2147483648)], 4)"
    by (simp add: sample_args_def sample_tpe_def sample_int_def Random_choice_def
        SpecialInt_def MinInt_value MaxInt_value)
  have g0: "gen_traces length ?A (\<lambda>(r::nat) n. (r mod n, Suc r)) 0 0 = Inr ([], 0)"
    using gen_traces_records [OF counter_ok p, of 0 length 0] by simp
  have g1: "gen_traces length ?A (\<lambda>(r::nat) n. (r mod n, Suc r)) 0 1
       = Inr ([(1, [PyInt (- 2147483647)])], 2)"
    using gen_traces_records [OF counter_ok p, of 0 length 0] g0 s0 by simp
  have g2: "gen_traces length ?A (\<lambda>(r::nat) n. (r mod n, Suc r)) 0 2
       = Inr ([(1, [PyInt (- 2147483647)]), (1, [PyInt (- 2147483648)])], 4)"
    using gen_traces_records [OF counter_ok p, of 1 length 0] g1 s2 by simp
  have neg: "gen_traces length ?A (\<lambda>(r::nat) n. (r mod n, Suc r)) 0 (- 1) = Inl AssertionError"
    using gen_traces_records [OF counter_ok p, of "- 1" length 0] by simp
  show ?thesis
    using counter_ok p neg g2 by (intro conjI)
qed

text \<open>
  Claim C9. A type whose name is not \<^verbatim>\<open>Int\<close> makes \<^verbatim>\<open>sample_tpe\<close> and
  \<^verbatim>\<open>_meta_tpe_to_c_tpe\<close> raise \<^verbatim>\<open>NotImplementedError\<close>, and sampling the arguments of an
  analysis with such an argument raises it too. When the return type or an argument
  type of the analysis is such a type, building the prototype raises it, and
  \<^verbatim>\<open>compile_function\<close> returns no callable whatever the loading of the module did: when
  the loading succeeded the exception is \<^verbatim>\<open>NotImplementedError\<close>. So no callable exists
  whose call could fail for the type. When all the types are \<^verbatim>\<open>Int\<close> the prototype is
  built and the callable is returned.
\<close>

theorem unsupported_type_fails:
  "(type_name tpe \<noteq> ''Int'' \<longrightarrow>
      sample_tpe rb r tpe = Inl NotImplementedError
      \<and> meta_tpe_to_c_tpe tpe = Inl NotImplementedError)
   \<and> (randbelow_ok rb
        \<and> (\<exists>a\<in>set (analysis_arguments analysis). type_name (argument_type a) \<noteq> ''Int'') \<longrightarrow>
      sample_args rb r analysis = Inl NotImplementedError)
   \<and> ((\<exists>t\<in>set (analysis_return_type analysis
                  # map argument_type (analysis_arguments analysis)).
          type_name t \<noteq> ''Int'') \<longrightarrow>
      analysis_to_c_func analysis = Inl NotImplementedError
      \<and> (\<forall>c. compile_function load filename analysis \<noteq> Inr c)
      \<and> (\<forall>ptr. load filename (analysis_name analysis) = Inr ptr \<longrightarrow>
            compile_function load filename analysis = Inl NotImplementedError))
   \<and> ((\<forall>t\<in>set (analysis_return_type analysis
                  # map argument_type (analysis_arguments analysis)).
          type_name t = ''Int'') \<longrightarrow>
      analysis_to_c_func analysis =
        Inr (CFUNCTYPE c_int (replicate (length (analysis_arguments analysis)) c_int))
      \<and> (\<forall>ptr. load filename (analysis_name analysis) = Inr ptr \<longrightarrow>
            compile_function load filename analysis =
              Inr (CFunc (CFUNCTYPE c_int
                     (replicate (length (analysis_arguments analysis)) c_int)) ptr)))"
proof -
  let ?ts = "analysis_return_type analysis # map argument_type (analysis_arguments analysis)"
  have one: "type_name tpe \<noteq> ''Int'' \<longrightarrow>
      sample_tpe rb r tpe = Inl NotImplementedError
      \<and> meta_tpe_to_c_tpe tpe = Inl NotImplementedError"
    by (simp add: sample_tpe_def meta_tpe_to_c_tpe_def)
  have args: "randbelow_ok rb
        \<and> (\<exists>a\<in>set (analysis_arguments analysis). type_name (argument_type a) \<noteq> ''Int'') \<longrightarrow>
      sample_args rb r analysis = Inl NotImplementedError"
    using sample_each_unsupported [of rb "analysis_arguments analysis" r]
    by (auto simp add: sample_args_def)
  have bad: "(\<exists>t\<in>set ?ts. type_name t \<noteq> ''Int'') \<longrightarrow>
      analysis_to_c_func analysis = Inl NotImplementedError
      \<and> (\<forall>c. compile_function load filename analysis \<noteq> Inr c)
      \<and> (\<forall>ptr. load filename (analysis_name analysis) = Inr ptr \<longrightarrow>
            compile_function load filename analysis = Inl NotImplementedError)"
  proof
    assume "\<exists>t\<in>set ?ts. type_name t \<noteq> ''Int''"
    then have "meta_tpes_to_c_tpes ?ts = Inl NotImplementedError"
      by (rule meta_tpes_some_other)
    then have a: "analysis_to_c_func analysis = Inl NotImplementedError"
      by (simp add: analysis_to_c_func_def)
    then show "analysis_to_c_func analysis = Inl NotImplementedError
      \<and> (\<forall>c. compile_function load filename analysis \<noteq> Inr c)
      \<and> (\<forall>ptr. load filename (analysis_name analysis) = Inr ptr \<longrightarrow>
            compile_function load filename analysis = Inl NotImplementedError)"
      by (simp add: compile_function_def split: sum.splits)
  qed
  have good: "(\<forall>t\<in>set ?ts. type_name t = ''Int'') \<longrightarrow>
      analysis_to_c_func analysis =
        Inr (CFUNCTYPE c_int (replicate (length (analysis_arguments analysis)) c_int))
      \<and> (\<forall>ptr. load filename (analysis_name analysis) = Inr ptr \<longrightarrow>
            compile_function load filename analysis =
              Inr (CFunc (CFUNCTYPE c_int
                     (replicate (length (analysis_arguments analysis)) c_int)) ptr))"
  proof
    assume "\<forall>t\<in>set ?ts. type_name t = ''Int''"
    then have "meta_tpes_to_c_tpes ?ts = Inr (replicate (length ?ts) c_int)"
      by (rule meta_tpes_all_Int)
    then have a: "analysis_to_c_func analysis =
        Inr (CFUNCTYPE c_int (replicate (length (analysis_arguments analysis)) c_int))"
      by (simp add: analysis_to_c_func_def)
    then show "analysis_to_c_func analysis =
        Inr (CFUNCTYPE c_int (replicate (length (analysis_arguments analysis)) c_int))
      \<and> (\<forall>ptr. load filename (analysis_name analysis) = Inr ptr \<longrightarrow>
            compile_function load filename analysis =
              Inr (CFunc (CFUNCTYPE c_int
                     (replicate (length (analysis_arguments analysis)) c_int)) ptr))"
      by (simp add: compile_function_def)
  qed
  show ?thesis
    using one args bad good by (intro conjI)
qed

theorem unsupported_type_fails_witness:
  "type_name (Type ''Float'' []) \<noteq> ''Int''
   \<and> sample_tpe (\<lambda>(r::nat) n. (r mod n, Suc r)) 0 (Type ''Float'' []) = Inl NotImplementedError
   \<and> sample_args (\<lambda>(r::nat) n. (r mod n, Suc r)) 0
        \<lparr>analysis_name = ''f'',
         analysis_arguments = [Argument ''x'' (Type ''Int'' []), Argument ''y'' (Type ''Float'' [])],
         analysis_return_type = Type ''Int'' []\<rparr> = Inl NotImplementedError
   \<and> compile_function (\<lambda>_ _. Inr 4096) ''f.ll''
        \<lparr>analysis_name = ''f'',
         analysis_arguments = [Argument ''x'' (Type ''Int'' []), Argument ''y'' (Type ''Float'' [])],
         analysis_return_type = Type ''Int'' []\<rparr> = Inl NotImplementedError
   \<and> compile_function (\<lambda>_ _. Inr 4096) ''f.ll''
        \<lparr>analysis_name = ''f'',
         analysis_arguments = [Argument ''x'' (Type ''Int'' [])],
         analysis_return_type = Type ''Int'' []\<rparr> = Inr (CFunc (CFUNCTYPE c_int [c_int]) 4096)"
  using unsupported_type_fails [where tpe = "Type ''Float'' []"
      and rb = "\<lambda>(r::nat) n. (r mod n, Suc r)" and r = 0
      and load = "\<lambda>_ _. Inr 4096" and filename = "''f.ll''"
      and analysis = "\<lparr>analysis_name = ''f'',
         analysis_arguments = [Argument ''x'' (Type ''Int'' []), Argument ''y'' (Type ''Float'' [])],
         analysis_return_type = Type ''Int'' []\<rparr>"]
    unsupported_type_fails [where tpe = "Type ''Float'' []"
      and rb = "\<lambda>(r::nat) n. (r mod n, Suc r)" and r = 0
      and load = "\<lambda>_ _. Inr 4096" and filename = "''f.ll''"
      and analysis = "\<lparr>analysis_name = ''f'',
         analysis_arguments = [Argument ''x'' (Type ''Int'' [])],
         analysis_return_type = Type ''Int'' []\<rparr>"]
    counter_ok
  by simp

section \<open>Properties of the translator\<close>

lemma lower_operand_eq:
  "lower_operand vars e = (if is_Name e then resolve vars e True else visit vars e)"
  by (cases e) (simp_all add: lower_operand_def)

lemma resolve_True_eq:
  "resolve vars e True = (if resolvable e then lower_operand vars e else Inl TypeError)"
  by (cases e) (simp_all add: lower_operand_def)

text \<open>
  Claim C1, amended. In a binary operation each operand follows the operand rule: a
  bare identifier becomes a reference to the registered variable and any other operand
  is lowered by the generic visitor. In a unary operation and in a comparison the
  operands go through \<^verbatim>\<open>resolve\<close>: a bare identifier becomes a reference to the
  registered variable, an attribute access, a call or a constant is lowered by the
  generic visitor, and an operand of any other kind (a nested binary, unary,
  comparison or boolean operation, a subscript, an index, a starred expression) raises
  \<^verbatim>\<open>TypeError\<close>.
\<close>

theorem operand_rule:
  "visit vars (ast_BinOp l op r) =
     (case visit_BinOp_op op of Inl e \<Rightarrow> Inl e | Inr t \<Rightarrow>
       (case lower_operand vars l of Inl e \<Rightarrow> Inl e | Inr a \<Rightarrow>
         (case lower_operand vars r of Inl e \<Rightarrow> Inl e
          | Inr b \<Rightarrow> Inr (ir_BinaryOp t a b))))
   \<and> visit vars (ast_UnaryOp uop x) =
     (case visit_UnaryOp_op uop of Inl e \<Rightarrow> Inl e | Inr t \<Rightarrow>
       (if resolvable x
        then (case lower_operand vars x of Inl e \<Rightarrow> Inl e | Inr a \<Rightarrow> Inr (ir_UnaryOp t a))
        else Inl TypeError))
   \<and> visit vars (ast_Compare l [cop] [c]) =
     (case visit_Compare_op cop of Inl e \<Rightarrow> Inl e | Inr t \<Rightarrow>
       (if resolvable l
        then (case lower_operand vars l of Inl e \<Rightarrow> Inl e | Inr a \<Rightarrow>
          (if resolvable c
           then (case lower_operand vars c of Inl e \<Rightarrow> Inl e
                 | Inr b \<Rightarrow> Inr (ir_BinaryOp t a b))
           else Inl TypeError))
        else Inl TypeError))
   \<and> lower_operand vars (ast_Name y) =
       (case vars y of None \<Rightarrow> Inl NameError | Some v \<Rightarrow> Inr (ir_ref v))
   \<and> lower_operand vars x = (if is_Name x then resolve vars x True else visit vars x)
   \<and> resolvable x =
       ((\<exists>n. x = ast_Name n) \<or> (\<exists>v a. x = ast_Attribute v a) \<or> (\<exists>k. x = ast_Constant k)
        \<or> (\<exists>f args. x = ast_Call f args))"
proof -
  have b: "visit vars (ast_BinOp l op r) =
     (case visit_BinOp_op op of Inl e \<Rightarrow> Inl e | Inr t \<Rightarrow>
       (case lower_operand vars l of Inl e \<Rightarrow> Inl e | Inr a \<Rightarrow>
         (case lower_operand vars r of Inl e \<Rightarrow> Inl e
          | Inr b \<Rightarrow> Inr (ir_BinaryOp t a b))))"
    by (simp only: visit.simps lower_operand_eq)
  have u: "visit vars (ast_UnaryOp uop x) =
     (case visit_UnaryOp_op uop of Inl e \<Rightarrow> Inl e | Inr t \<Rightarrow>
       (if resolvable x
        then (case lower_operand vars x of Inl e \<Rightarrow> Inl e | Inr a \<Rightarrow> Inr (ir_UnaryOp t a))
        else Inl TypeError))"
    by (simp add: resolve_True_eq split: sum.splits)
  have c: "visit vars (ast_Compare l [cop] [c]) =
     (case visit_Compare_op cop of Inl e \<Rightarrow> Inl e | Inr t \<Rightarrow>
       (if resolvable l
        then (case lower_operand vars l of Inl e \<Rightarrow> Inl e | Inr a \<Rightarrow>
          (if resolvable c
           then (case lower_operand vars c of Inl e \<Rightarrow> Inl e
                 | Inr b \<Rightarrow> Inr (ir_BinaryOp t a b))
           else Inl TypeError))
        else Inl TypeError))"
    by (simp add: resolve_True_eq split: sum.splits)
  have n: "lower_operand vars (ast_Name y) =
       (case vars y of None \<Rightarrow> Inl NameError | Some v \<Rightarrow> Inr (ir_ref v))"
    by (simp add: lower_operand_def)
  have k: "resolvable x =
       ((\<exists>n. x = ast_Name n) \<or> (\<exists>v a. x = ast_Attribute v a) \<or> (\<exists>k. x = ast_Constant k)
        \<or> (\<exists>f args. x = ast_Call f args))"
    by (cases x) simp_all
  show ?thesis
    using b u c n lower_operand_eq [of vars x] k by (intro conjI)
qed

text \<open>
  With \<open>a\<close> and \<open>b\<close> registered, \<^verbatim>\<open>a < b\<close> and \<^verbatim>\<open>a + 1\<close> are lowered, but as operands,
  in \<^verbatim>\<open>not (a < b)\<close> and in \<^verbatim>\<open>a + 1 < b\<close>, they raise \<^verbatim>\<open>TypeError\<close>.
\<close>

theorem operand_rule_counterexample:
  "visit [''a'' \<mapsto> ir_Var ''a'' ''int'', ''b'' \<mapsto> ir_Var ''b'' ''int'']
     (ast_Compare (ast_Name ''a'') [ast_Lt] [ast_Name ''b'']) =
     Inr (ir_BinaryOp operator_lt (ir_ref (ir_Var ''a'' ''int'')) (ir_ref (ir_Var ''b'' ''int'')))
   \<and> visit [''a'' \<mapsto> ir_Var ''a'' ''int'', ''b'' \<mapsto> ir_Var ''b'' ''int'']
     (ast_UnaryOp ast_Not (ast_Compare (ast_Name ''a'') [ast_Lt] [ast_Name ''b''])) =
     Inl TypeError
   \<and> visit [''a'' \<mapsto> ir_Var ''a'' ''int'', ''b'' \<mapsto> ir_Var ''b'' ''int'']
     (ast_BinOp (ast_Name ''a'') ast_Add (ast_Constant (PyInt 1))) =
     Inr (ir_BinaryOp operator_add (ir_ref (ir_Var ''a'' ''int'')) (ir_Lit (PyInt 1) type_int))
   \<and> visit [''a'' \<mapsto> ir_Var ''a'' ''int'', ''b'' \<mapsto> ir_Var ''b'' ''int'']
     (ast_Compare (ast_BinOp (ast_Name ''a'') ast_Add (ast_Constant (PyInt 1)))
        [ast_Lt] [ast_Name ''b'']) =
     Inl TypeError"
  by simp

lemma is_Choose_iff:
  "is_Choose fn = (fn = py_str ''Choose'' \<or> fn = ir_Field (py_str ''ir'') ''Choose'')"
  by (cases fn rule: is_Choose.cases) auto

lemma visit_each_nth:
  "visit_each vars args = Inr xs \<Longrightarrow>
     length xs = length args \<and> (\<forall>i<length args. visit vars (args ! i) = Inr (xs ! i))"
proof (induction args arbitrary: xs)
  case Nil
  then show ?case by simp
next
  case (Cons a args)
  then obtain t ts where t: "visit vars a = Inr t" and ts: "visit_each vars args = Inr ts"
      and xs: "xs = t # ts"
    by (auto split: sum.splits)
  have "length ts = length args \<and> (\<forall>i<length args. visit vars (args ! i) = Inr (ts ! i))"
    using Cons.IH [OF ts] .
  then show ?case
    using t xs by (auto simp add: nth_Cons split: nat.splits)
qed

text \<open>
  Claim C3, amended. Let the \<open>k\<close> arguments of a call lower without error; the results
  are \<open>k\<close>, each the lowering of the argument at its index. When the callee is the bare
  name \<^verbatim>\<open>Choose\<close> or the attribute \<^verbatim>\<open>Choose\<close> of the bare name \<^verbatim>\<open>ir\<close>, the call is lowered
  to a \<^verbatim>\<open>Choose\<close> node holding these results in order. A call to any other bare name is
  lowered to a \<^verbatim>\<open>Call\<close> node with the name and these results in order, and so is a
  call to any other callee that \<^verbatim>\<open>resolve\<close> accepts: only the two callees above are
  recognised.
\<close>

theorem choose_call:
  assumes "visit_each vars args = Inr xs"
  shows "length xs = length args
    \<and> (\<forall>i<length args. visit vars (args ! i) = Inr (xs ! i))
    \<and> visit vars (ast_Call (ast_Name ''Choose'') args) = Inr (ir_Choose xs)
    \<and> visit vars (ast_Call (ast_Attribute (ast_Name ''ir'') ''Choose'') args) = Inr (ir_Choose xs)
    \<and> (f \<noteq> ''Choose'' \<longrightarrow>
         visit vars (ast_Call (ast_Name f) args) = Inr (ir_Call (py_str f) xs))
    \<and> (resolve vars func False = Inr fn \<longrightarrow>
         visit vars (ast_Call func args) =
           Inr (if fn = py_str ''Choose'' \<or> fn = ir_Field (py_str ''ir'') ''Choose''
                then ir_Choose xs else ir_Call fn xs))"
proof -
  have n: "length xs = length args \<and> (\<forall>i<length args. visit vars (args ! i) = Inr (xs ! i))"
    using assms by (rule visit_each_nth)
  have c1: "visit vars (ast_Call (ast_Name ''Choose'') args) = Inr (ir_Choose xs)"
    using assms by simp
  have c2: "visit vars (ast_Call (ast_Attribute (ast_Name ''ir'') ''Choose'') args) =
      Inr (ir_Choose xs)"
    using assms by simp
  have c3: "f \<noteq> ''Choose'' \<longrightarrow>
         visit vars (ast_Call (ast_Name f) args) = Inr (ir_Call (py_str f) xs)"
    using assms by simp
  have c4: "resolve vars func False = Inr fn \<longrightarrow>
         visit vars (ast_Call func args) =
           Inr (if fn = py_str ''Choose'' \<or> fn = ir_Field (py_str ''ir'') ''Choose''
                then ir_Choose xs else ir_Call fn xs)"
    using assms is_Choose_iff [of fn] by simp
  show ?thesis
    using n c1 c2 c3 c4 by (intro conjI) blast+
qed

theorem choose_call_witness:
  "visit_each (Map.empty :: string \<rightharpoonup> string var) [ast_Constant (PyInt 1), ast_Name ''y''] =
     Inr [ir_Lit (PyInt 1) type_int, py_str ''y'']
   \<and> visit (Map.empty :: string \<rightharpoonup> string var)
       (ast_Call (ast_Name ''Choose'') [ast_Constant (PyInt 1), ast_Name ''y'']) =
     Inr (ir_Choose [ir_Lit (PyInt 1) type_int, py_str ''y''])
   \<and> visit (Map.empty :: string \<rightharpoonup> string var)
       (ast_Call (ast_Attribute (ast_Name ''ir'') ''Choose'')
          [ast_Constant (PyInt 1), ast_Name ''y'']) =
     Inr (ir_Choose [ir_Lit (PyInt 1) type_int, py_str ''y''])
   \<and> visit (Map.empty :: string \<rightharpoonup> string var)
       (ast_Call (ast_Name ''g'') [ast_Constant (PyInt 1), ast_Name ''y'']) =
     Inr (ir_Call (py_str ''g'') [ir_Lit (PyInt 1) type_int, py_str ''y''])
   \<and> visit (Map.empty :: string \<rightharpoonup> string var)
       (ast_Call (ast_Attribute (ast_Name ''m'') ''g'') [ast_Constant (PyInt 1), ast_Name ''y'']) =
     Inr (ir_Call (ir_Field (py_str ''m'') ''g'') [ir_Lit (PyInt 1) type_int, py_str ''y''])"
proof -
  have a: "visit_each (Map.empty :: string \<rightharpoonup> string var)
      [ast_Constant (PyInt 1), ast_Name ''y''] = Inr [ir_Lit (PyInt 1) type_int, py_str ''y'']"
    by simp
  have r: "resolve (Map.empty :: string \<rightharpoonup> string var) (ast_Attribute (ast_Name ''m'') ''g'')
      False = Inr (ir_Field (py_str ''m'') ''g'')"
    by simp
  show ?thesis
    using a r choose_call [OF a, where f = "''g''"
        and func = "ast_Attribute (ast_Name ''m'') ''g''" and fn = "ir_Field (py_str ''m'') ''g''"]
    by simp
qed

text \<open>
  \<^verbatim>\<open>np.Choose(1, 2)\<close> and \<^verbatim>\<open>metalift.ir.Choose(1, 2)\<close> end in the name \<^verbatim>\<open>Choose\<close> and are
  lowered to \<^verbatim>\<open>Call\<close> nodes.
\<close>

theorem choose_call_counterexample:
  "visit (Map.empty :: string \<rightharpoonup> string var)
     (ast_Call (ast_Attribute (ast_Name ''np'') ''Choose'')
        [ast_Constant (PyInt 1), ast_Constant (PyInt 2)]) =
     Inr (ir_Call (ir_Field (py_str ''np'') ''Choose'')
        [ir_Lit (PyInt 1) type_int, ir_Lit (PyInt 2) type_int])
   \<and> visit (Map.empty :: string \<rightharpoonup> string var)
     (ast_Call (ast_Attribute (ast_Attribute (ast_Name ''metalift'') ''ir'') ''Choose'')
        [ast_Constant (PyInt 1), ast_Constant (PyInt 2)]) =
     Inr (ir_Call (ir_Field (ir_Field (py_str ''metalift'') ''ir'') ''Choose'')
        [ir_Lit (PyInt 1) type_int, ir_Lit (PyInt 2) type_int])"
  by simp


text \<open>
  Claim C2. A bare identifier read before it is registered must raise \<^verbatim>\<open>NameError\<close>,
  and one registered first must resolve to its variable. The translator does so where
  it tests for a name and calls \<^verbatim>\<open>resolve\<close>: an unregistered identifier that is
  returned, or is an operand, raises \<^verbatim>\<open>NameError\<close>, and a returned parameter is a
  reference to its variable. It does not for the arguments of a call and the
  conditions of \<^verbatim>\<open>while\<close> and \<^verbatim>\<open>if\<close>, which go to \<^verbatim>\<open>visit_Name\<close>: the first function below
  reads the unregistered \<open>y\<close> three times and is translated, with the text of the name in
  the nodes. And \<^verbatim>\<open>visit_FunctionDef\<close> replaces the symbol table of the translator without
  restoring it, so after a nested definition the registered parameter \<open>x\<close> of the outer
  function raises \<^verbatim>\<open>NameError\<close>.
\<close>

theorem undeclared_variable_failing_input:
  "translate (\<lambda>s. Inr s)
     [ast_FunctionDef ''f'' []
        [ast_While (ast_Name ''y'') [ast_Break] [],
         ast_If (ast_Name ''y'') [ast_Continue] [],
         ast_Return (Some (ast_Call (ast_Name ''g'') [ast_Name ''y'']))]
        (Some (ann_Name ''int''))] =
   Inr (ir_Program []
     [ir_FnDecl ''f'' [] ''int''
        (ir_Block [ir_While (py_str ''y'') [ir_Branch Branch_Break],
                   ir_If (py_str ''y'') (ir_Block [ir_Branch Branch_Continue]) (ir_Block []),
                   ir_Return (Some (ir_Call (py_str ''g'') [py_str ''y'']))])])
   \<and> translate (\<lambda>s. Inr s)
     [ast_FunctionDef ''f'' [] [ast_Return (Some (ast_Name ''y''))] (Some (ann_Name ''int''))] =
   Inl NameError
   \<and> translate (\<lambda>s. Inr s)
     [ast_FunctionDef ''f'' []
        [ast_Return (Some (ast_BinOp (ast_Name ''y'') ast_Add (ast_Constant (PyInt 1))))]
        (Some (ann_Name ''int''))] =
   Inl NameError
   \<and> translate (\<lambda>s. Inr s)
     [ast_FunctionDef ''f'' [ast_arg ''x'' (Some (ann_Name ''int''))]
        [ast_Return (Some (ast_Name ''x''))] (Some (ann_Name ''int''))] =
   Inr (ir_Program []
     [ir_FnDecl ''f'' [ir_Var ''x'' ''int''] ''int''
        (ir_Block [ir_Return (Some (ir_ref (ir_Var ''x'' ''int'')))])])
   \<and> translate (\<lambda>s. Inr s)
     [ast_FunctionDef ''f'' [ast_arg ''x'' (Some (ann_Name ''int''))]
        [ast_FunctionDef ''g'' [] [ast_Return (Some (ast_Constant (PyInt 1)))]
           (Some (ann_Name ''int'')),
         ast_Return (Some (ast_Name ''x''))]
        (Some (ann_Name ''int''))] =
   Inl NameError"
  by (simp add: translate_def visit_Module_def Translator_init_def Let_def)

text \<open>
  Claim C6. A plain assignment with more than one target fails: with \<^verbatim>\<open>TypeError\<close>
  once its value has been lowered, and with the error of the value when that lowering
  fails first. An assignment whose single target is a name that is not registered
  fails too, with \<^verbatim>\<open>KeyError\<close> once the value has been lowered. An assignment whose
  single target is a registered name, and whose value lowers, gives an \<^verbatim>\<open>Assign\<close> node
  with the registered variable and the lowered value, and leaves the symbol table as
  it is.
\<close>

theorem plain_assignment:
  "(1 < length targets \<longrightarrow>
      (\<exists>e. visit_stmt ev vars (ast_Assign targets rhs) = Inl e)
      \<and> ((if is_Name rhs then resolve vars rhs True else visit vars rhs) = Inr val \<longrightarrow>
           visit_stmt ev vars (ast_Assign targets rhs) = Inl TypeError))
   \<and> (vars x = None \<longrightarrow>
      (\<exists>e. visit_stmt ev vars (ast_Assign [ast_Name x] rhs) = Inl e)
      \<and> ((if is_Name rhs then resolve vars rhs True else visit vars rhs) = Inr val \<longrightarrow>
           visit_stmt ev vars (ast_Assign [ast_Name x] rhs) = Inl KeyError))
   \<and> (vars x = Some v
        \<and> (if is_Name rhs then resolve vars rhs True else visit vars rhs) = Inr val \<longrightarrow>
      visit_stmt ev vars (ast_Assign [ast_Name x] rhs) = Inr (ir_Assign v val, vars))"
proof -
  define low where "low = (if is_Name rhs then resolve vars rhs True else visit vars rhs)"
  have eq: "visit_stmt ev vars (ast_Assign targets rhs) =
      (case low of Inl e \<Rightarrow> Inl e
       | Inr val \<Rightarrow>
          if length targets > 1 then Inl TypeError
          else (case targets of [] \<Rightarrow> Inl IndexError | t # _ \<Rightarrow>
            (case visit vars t of Inl e \<Rightarrow> Inl e | Inr k \<Rightarrow>
              (case vars_lookup vars k of Inl e \<Rightarrow> Inl e
               | Inr v \<Rightarrow> Inr (ir_Assign v val, vars)))))"
    unfolding low_def by simp
  have eq1: "visit_stmt ev vars (ast_Assign [ast_Name x] rhs) =
      (case low of Inl e \<Rightarrow> Inl e
       | Inr val \<Rightarrow>
          (case vars x of None \<Rightarrow> Inl KeyError | Some v \<Rightarrow> Inr (ir_Assign v val, vars)))"
    unfolding low_def by (simp split: sum.splits option.splits)
  have multi: "1 < length targets \<longrightarrow>
      (\<exists>e. visit_stmt ev vars (ast_Assign targets rhs) = Inl e)
      \<and> (low = Inr val \<longrightarrow> visit_stmt ev vars (ast_Assign targets rhs) = Inl TypeError)"
    by (cases low) (simp_all add: eq del: visit_stmt.simps)
  have unreg: "vars x = None \<longrightarrow>
      (\<exists>e. visit_stmt ev vars (ast_Assign [ast_Name x] rhs) = Inl e)
      \<and> (low = Inr val \<longrightarrow> visit_stmt ev vars (ast_Assign [ast_Name x] rhs) = Inl KeyError)"
    by (cases low) (simp_all add: eq1 del: visit_stmt.simps)
  have reg: "vars x = Some v \<and> low = Inr val \<longrightarrow>
      visit_stmt ev vars (ast_Assign [ast_Name x] rhs) = Inr (ir_Assign v val, vars)"
    by (simp add: eq1 del: visit_stmt.simps)
  show ?thesis
    using multi unreg reg unfolding low_def by (intro conjI)
qed

theorem plain_assignment_witness:
  "visit_stmt (\<lambda>s. Inr s) [''x'' \<mapsto> ir_Var ''x'' ''int'']
     (ast_Assign [ast_Name ''x'', ast_Name ''y''] (ast_Constant (PyInt 1))) = Inl TypeError
   \<and> visit_stmt (\<lambda>s. Inr s) [''x'' \<mapsto> ir_Var ''x'' ''int'']
     (ast_Assign [ast_Name ''y''] (ast_Constant (PyInt 1))) = Inl KeyError
   \<and> visit_stmt (\<lambda>s. Inr s) [''x'' \<mapsto> ir_Var ''x'' ''int'']
     (ast_Assign [ast_Name ''x''] (ast_Constant (PyInt 1))) =
       Inr (ir_Assign (ir_Var ''x'' ''int'') (ir_Lit (PyInt 1) type_int),
            [''x'' \<mapsto> ir_Var ''x'' ''int''])"
  using plain_assignment [where ev = "\<lambda>s. Inr s" and vars = "[''x'' \<mapsto> ir_Var ''x'' ''int'']"
      and targets = "[ast_Name ''x'', ast_Name ''y'']" and rhs = "ast_Constant (PyInt 1)"
      and val = "ir_Lit (PyInt 1) type_int" and x = "''y''"]
    plain_assignment [where ev = "\<lambda>s. Inr s" and vars = "[''x'' \<mapsto> ir_Var ''x'' ''int'']"
      and targets = "[ast_Name ''x'', ast_Name ''y'']" and rhs = "ast_Constant (PyInt 1)"
      and val = "ir_Lit (PyInt 1) type_int" and x = "''x''" and v = "ir_Var ''x'' ''int''"]
  by simp

lemma Module_register_fns:
  "Module_register self body = Inr r \<Longrightarrow>
     self_fns r n = (if n \<in> set (declared_functions body) then Some None else self_fns self n)"
  by (induction self body arbitrary: r rule: Module_register.induct)
    (simp_all split: list.splits)

lemma Module_register_single:
  "single_imports body \<Longrightarrow>
     \<exists>r. Module_register self body = Inr r
       \<and> self_imports r = self_imports self @ import_names body"
proof (induction body arbitrary: self)
  case Nil
  then show ?case by simp
next
  case (Cons s ss)
  show ?case
  proof (cases s)
    case (ast_Import names)
    then obtain a where a: "names = [a]" and rest: "single_imports ss"
      using Cons.prems by (auto simp add: length_Suc_conv)
    obtain r where "Module_register (self\<lparr>self_imports := self_imports self @ [alias_name a]\<rparr>) ss
          = Inr r"
        and "self_imports r = (self_imports self @ [alias_name a]) @ import_names ss"
      using Cons.IH [OF rest, of "self\<lparr>self_imports := self_imports self @ [alias_name a]\<rparr>"]
      by auto
    then show ?thesis
      using ast_Import a by simp
  next
    case (ast_FunctionDef name args body returns)
    then have rest: "single_imports ss"
      using Cons.prems by simp
    show ?thesis
      using Cons.IH [OF rest, of "self\<lparr>self_fns := (self_fns self)(name \<mapsto> None)\<rparr>"]
        ast_FunctionDef
      by simp
  qed (insert Cons.IH [of self] Cons.prems, simp_all)
qed

lemma visit_stmts_length:
  "visit_stmts ev vars ss = Inr (xs, vars') \<Longrightarrow> length xs = length ss"
proof (induction ss arbitrary: vars xs)
  case Nil
  then show ?case by simp
next
  case (Cons s ss)
  from Cons.prems obtain x v ys where rest: "visit_stmts ev v ss = Inr (ys, vars')"
      and xs: "xs = x # ys"
    by (simp split: sum.splits prod.splits) blast
  have "length ys = length ss"
    using rest by (rule Cons.IH)
  then show ?case
    using xs by simp
qed

lemma FunctionDef_count:
  "length (filter is_FunctionDef body) = length (declared_functions body)"
  by (induction body rule: declared_functions.induct) simp_all

text \<open>
  Claim C4, amended. The first loop of \<^verbatim>\<open>visit_Module\<close> gives every function declared at
  the top of the module an entry with the placeholder \<^verbatim>\<open>None\<close> in the registry. For a
  module whose \<^verbatim>\<open>import\<close> statements name one module each, the loop does not fail and
  appends the names they import to the import names, in the order of the statements;
  a statement \<^verbatim>\<open>from m import x\<close> adds nothing. When the loop raises, the module fails
  with its error and no body is lowered. After a translation that succeeded the
  registry holds exactly the declared names, each with the placeholder, and the
  program has the import names collected and one function per declaration. A returned
  call to any name other than \<^verbatim>\<open>Choose\<close> is lowered, whatever the symbol table and the
  registry hold, to a \<^verbatim>\<open>Call\<close> node that keeps the callee as its name; so a module whose
  first function calls the second, declared after it, and whose second function calls
  itself, is translated.
\<close>

theorem module_registry:
  "(Module_register self body = Inr registered \<longrightarrow>
      self_fns registered =
        (\<lambda>n. if n \<in> set (declared_functions body) then Some None else self_fns self n))
   \<and> (single_imports body \<longrightarrow>
        (\<exists>r. Module_register self body = Inr r
           \<and> self_imports r = self_imports self @ import_names body))
   \<and> Module_register self (ast_ImportFrom m names # body) = Module_register self body
   \<and> (Module_register self body = Inl e \<longrightarrow> visit_Module ev self body = Inl e)
   \<and> (visit_Module ev Translator_init body = Inr (p, self') \<longrightarrow>
        dom (self_fns self') = set (declared_functions body)
        \<and> (\<forall>n\<in>set (declared_functions body). self_fns self' n = Some None)
        \<and> (\<exists>fs. p = ir_Program (self_imports self') fs
              \<and> length fs = length (declared_functions body))
        \<and> (single_imports body \<longrightarrow> self_imports self' = import_names body))
   \<and> (g \<noteq> ''Choose'' \<and> visit_each vars args = Inr xs \<longrightarrow>
        visit_stmt ev vars (ast_Return (Some (ast_Call (ast_Name g) args))) =
          Inr (ir_Return (Some (ir_Call (py_str g) xs)), vars))
   \<and> (g \<noteq> ''Choose'' \<longrightarrow>
        translate ev
          [ast_FunctionDef f [] [ast_Return (Some (ast_Call (ast_Name g) []))]
             (Some (ann_Name rt)),
           ast_FunctionDef g [] [ast_Return (Some (ast_Call (ast_Name g) []))]
             (Some (ann_Name rt))] =
        Inr (ir_Program []
          [ir_FnDecl f [] rt (ir_Block [ir_Return (Some (ir_Call (py_str g) []))]),
           ir_FnDecl g [] rt (ir_Block [ir_Return (Some (ir_Call (py_str g) []))])]))"
proof -
  have reg: "Module_register self body = Inr registered \<longrightarrow>
      self_fns registered =
        (\<lambda>n. if n \<in> set (declared_functions body) then Some None else self_fns self n)"
    using Module_register_fns [of self body registered] by auto
  have imp: "single_imports body \<longrightarrow>
        (\<exists>r. Module_register self body = Inr r
           \<and> self_imports r = self_imports self @ import_names body)"
    using Module_register_single [of body self] by blast
  have from_import:
    "Module_register self (ast_ImportFrom m names # body) = Module_register self body"
    by simp
  have fail: "Module_register self body = Inl e \<longrightarrow> visit_Module ev self body = Inl e"
    by (simp add: visit_Module_def)
  have whole: "visit_Module ev Translator_init body = Inr (p, self') \<longrightarrow>
        dom (self_fns self') = set (declared_functions body)
        \<and> (\<forall>n\<in>set (declared_functions body). self_fns self' n = Some None)
        \<and> (\<exists>fs. p = ir_Program (self_imports self') fs
              \<and> length fs = length (declared_functions body))
        \<and> (single_imports body \<longrightarrow> self_imports self' = import_names body)"
  proof
    assume m: "visit_Module ev Translator_init body = Inr (p, self')"
    then obtain self1 fs vars' where r: "Module_register Translator_init body = Inr self1"
        and l: "visit_stmts ev (self_vars self1) (filter is_FunctionDef body) = Inr (fs, vars')"
        and p: "p = ir_Program (self_imports self1) fs"
        and s: "self' = self1\<lparr>self_vars := vars'\<rparr>"
      by (auto simp add: visit_Module_def split: sum.splits prod.splits)
    have init: "self_fns (Translator_init :: 'a translator) = Map.empty"
        "self_imports (Translator_init :: 'a translator) = []"
      by (simp_all add: Translator_init_def)
    have f1: "self_fns self1 =
        (\<lambda>n. if n \<in> set (declared_functions body) then Some None else None)"
    proof
      fix n
      show "self_fns self1 n = (if n \<in> set (declared_functions body) then Some None else None)"
        using Module_register_fns [OF r, of n] unfolding init by simp
    qed
    have i1: "single_imports body \<longrightarrow> self_imports self1 = import_names body"
      using Module_register_single [of body "Translator_init :: 'a translator"] r
      unfolding init by auto
    have n: "length fs = length (declared_functions body)"
      using visit_stmts_length [OF l] FunctionDef_count [of body] by simp
    have d: "dom (self_fns self') = set (declared_functions body)"
      using f1 s by (auto simp add: dom_def)
    have v: "\<forall>n\<in>set (declared_functions body). self_fns self' n = Some None"
      using f1 s by simp
    have i: "single_imports body \<longrightarrow> self_imports self' = import_names body"
      using i1 s by simp
    have "\<exists>fs. p = ir_Program (self_imports self') fs
              \<and> length fs = length (declared_functions body)"
      using p s n by simp
    then show "dom (self_fns self') = set (declared_functions body)
        \<and> (\<forall>n\<in>set (declared_functions body). self_fns self' n = Some None)
        \<and> (\<exists>fs. p = ir_Program (self_imports self') fs
              \<and> length fs = length (declared_functions body))
        \<and> (single_imports body \<longrightarrow> self_imports self' = import_names body)"
      using d v i by (intro conjI)
  qed
  have call: "g \<noteq> ''Choose'' \<and> visit_each vars args = Inr xs \<longrightarrow>
        visit_stmt ev vars (ast_Return (Some (ast_Call (ast_Name g) args))) =
          Inr (ir_Return (Some (ir_Call (py_str g) xs)), vars)"
    by simp
  have two: "g \<noteq> ''Choose'' \<longrightarrow>
        translate ev
          [ast_FunctionDef f [] [ast_Return (Some (ast_Call (ast_Name g) []))]
             (Some (ann_Name rt)),
           ast_FunctionDef g [] [ast_Return (Some (ast_Call (ast_Name g) []))]
             (Some (ann_Name rt))] =
        Inr (ir_Program []
          [ir_FnDecl f [] rt (ir_Block [ir_Return (Some (ir_Call (py_str g) []))]),
           ir_FnDecl g [] rt (ir_Block [ir_Return (Some (ir_Call (py_str g) []))])])"
    by (simp add: translate_def visit_Module_def Translator_init_def)
  show ?thesis
    using reg imp from_import fail whole call two by (intro conjI)
qed

theorem module_registry_witness:
  "single_imports
     [ast_Import [ast_alias ''ir'' None],
      ast_FunctionDef ''f'' [] [ast_Return (Some (ast_Call (ast_Name ''g'') []))]
        (Some (ann_Name ''int'')),
      ast_ImportFrom (Some ''math'') [ast_alias ''floor'' None],
      ast_Import [ast_alias ''os'' None],
      ast_FunctionDef ''g'' [] [ast_Return (Some (ast_Call (ast_Name ''g'') []))]
        (Some (ann_Name ''int''))]
   \<and> Module_register (Translator_init :: string translator) [ast_Import []] = Inl IndexError
   \<and> visit_Module (\<lambda>s. Inr s) (Translator_init :: string translator) [ast_Import []] =
       Inl IndexError
   \<and> visit_Module (\<lambda>s. Inr s) Translator_init
     [ast_Import [ast_alias ''ir'' None],
      ast_FunctionDef ''f'' [] [ast_Return (Some (ast_Call (ast_Name ''g'') []))]
        (Some (ann_Name ''int'')),
      ast_ImportFrom (Some ''math'') [ast_alias ''floor'' None],
      ast_Import [ast_alias ''os'' None],
      ast_FunctionDef ''g'' [] [ast_Return (Some (ast_Call (ast_Name ''g'') []))]
        (Some (ann_Name ''int''))] =
     Inr (ir_Program [''ir'', ''os'']
            [ir_FnDecl ''f'' [] ''int'' (ir_Block [ir_Return (Some (ir_Call (py_str ''g'') []))]),
             ir_FnDecl ''g'' [] ''int'' (ir_Block [ir_Return (Some (ir_Call (py_str ''g'') []))])],
          \<lparr>self_fns = [''f'' \<mapsto> None, ''g'' \<mapsto> None], self_imports = [''ir'', ''os''],
           self_vars = Map.empty\<rparr>)
   \<and> translate (\<lambda>s. Inr s)
     [ast_FunctionDef ''f'' [] [ast_Return (Some (ast_Call (ast_Name ''g'') []))]
        (Some (ann_Name ''int'')),
      ast_FunctionDef ''g'' [] [ast_Return (Some (ast_Call (ast_Name ''g'') []))]
        (Some (ann_Name ''int''))] =
     Inr (ir_Program []
            [ir_FnDecl ''f'' [] ''int'' (ir_Block [ir_Return (Some (ir_Call (py_str ''g'') []))]),
             ir_FnDecl ''g'' [] ''int'' (ir_Block [ir_Return (Some (ir_Call (py_str ''g'') []))])])"
proof -
  let ?body = "[ast_Import [ast_alias ''ir'' None],
      ast_FunctionDef ''f'' [] [ast_Return (Some (ast_Call (ast_Name ''g'') []))]
        (Some (ann_Name ''int'')),
      ast_ImportFrom (Some ''math'') [ast_alias ''floor'' None],
      ast_Import [ast_alias ''os'' None],
      ast_FunctionDef ''g'' [] [ast_Return (Some (ast_Call (ast_Name ''g'') []))]
        (Some (ann_Name ''int''))]"
  let ?reg = "\<lparr>self_fns = [''f'' \<mapsto> None, ''g'' \<mapsto> None], self_imports = [''ir'', ''os''],
          self_vars = (Map.empty :: string \<rightharpoonup> string var)\<rparr>"
  let ?p = "ir_Program [''ir'', ''os'']
            [ir_FnDecl ''f'' [] ''int'' (ir_Block [ir_Return (Some (ir_Call (py_str ''g'') []))]),
             ir_FnDecl ''g'' [] ''int'' (ir_Block [ir_Return (Some (ir_Call (py_str ''g'') []))])]"
  have si: "single_imports ?body"
    by simp
  have r: "Module_register (Translator_init :: string translator) ?body = Inr ?reg"
    by (simp add: Translator_init_def)
  have e: "Module_register (Translator_init :: string translator) [ast_Import []] =
      Inl IndexError"
    by simp
  have m: "visit_Module (\<lambda>s. Inr s) Translator_init ?body = Inr (?p, ?reg)"
    by (simp add: visit_Module_def Translator_init_def)
  show ?thesis
    using si r e m
      module_registry [where self = "Translator_init :: string translator" and body = ?body
        and registered = ?reg and ev = "\<lambda>s. Inr s" and p = ?p and self' = ?reg
        and g = "''g''" and f = "''f''" and rt = "''int''"
        and vars = "Map.empty :: string \<rightharpoonup> string var" and args = "[]" and xs = "[]"]
      module_registry [where self = "Translator_init :: string translator"
        and body = "[ast_Import []]" and e = IndexError and ev = "\<lambda>s. Inr s"]
    by simp
qed

text \<open>
  For \<^verbatim>\<open>import os, sys\<close> the names imported are \<open>os\<close> and \<open>sys\<close>, and the translator
  collects \<open>os\<close> only.
\<close>

theorem module_registry_counterexample:
  "Module_register (Translator_init :: string translator)
     [ast_Import [ast_alias ''os'' None, ast_alias ''sys'' None]] =
     Inr \<lparr>self_fns = Map.empty, self_imports = [''os''], self_vars = Map.empty\<rparr>
   \<and> import_names [ast_Import [ast_alias ''os'' None, ast_alias ''sys'' None]] =
       [''os'', ''sys'']
   \<and> translate (\<lambda>s. Inr s)
       [ast_Import [ast_alias ''os'' None, ast_alias ''sys'' None],
        ast_FunctionDef ''f'' [] [ast_Return None] (Some (ann_Name ''int''))] =
     Inr (ir_Program [''os'']
            [ir_FnDecl ''f'' [] ''int'' (ir_Block [ir_Return None])])"
  by (simp add: translate_def visit_Module_def Translator_init_def)

end
